theory Spec2Isabelle
  imports Main "HOL-Library.Word"
begin

section \<open>Frame lowering of the AVR backend (lib/Target/AVR/AVRFrameLowering.cpp)\<close>

text \<open>
  A shallow embedding of \<^verbatim>\<open>AVRFrameLowering.cpp\<close>: the frame policy (\<^verbatim>\<open>hasFP\<close>,
  \<^verbatim>\<open>hasReservedCallFrame\<close>), the callee-saved spiller and restorer, the prologue and
  epilogue emitters, the call-frame pseudo eliminator, and the two machine-function
  passes (\<^verbatim>\<open>AVRFrameAnalyzer\<close>, \<^verbatim>\<open>AVRDynAllocaSR\<close>).

  A basic block is the list of its instructions; a \<^verbatim>\<open>MachineBasicBlock::iterator\<close> is an
  index into that list, the length of the list being \<^verbatim>\<open>end()\<close>. Inserting before an
  iterator leaves the iterator on the instruction it pointed to, which is then one
  index further. A block of a function is named by its index in the function's
  block list. An \<^verbatim>\<open>assert\<close> of the source that fails is the value
  \<open>Inl (AssertionFailed msg)\<close>. Debug locations are not part of the model, nor is
  the set of used physical registers, which is all that
  \<^verbatim>\<open>processFunctionBeforeCalleeSavedScan\<close> changes.
\<close>

subsection \<open>Registers, opcodes, operands, instructions\<close>

text \<open>
  The register and opcode enumerations are generated tables that are not among the
  sources. The constructors below are the members the source names; every other
  physical register is \<open>PhysReg n\<close>, every other target opcode \<open>TargetOp n\<close>.
\<close>

datatype reg = SP | SREG | R0 | R1 | R1R0 | R29R28 | R31R30 | PhysReg nat | VirtReg nat

datatype subreg_index = sub_lo | sub_hi

datatype opcode =
    BSETs | PUSHWRr | PUSHRr | INRdA | SPREAD | SBIWRdK | SUBIWRdK | SPWRITE
  | POPRd | POPWRd | OUTARr | ADIWRdK
  | STDSPQRr | STDWSPQRr | STDPtrQRr | STDWPtrQRr | LDDRdPtrQ | LDDWRdPtrQ
  | COPY | DBG_VALUE | TargetOp nat

datatype calling_conv = AVR_INTR | AVR_SIGNAL | OtherCC nat

datatype error = AssertionFailed string | InvalidIterator

text \<open>The flags of a register operand (\<^verbatim>\<open>RegState\<close>).\<close>

record reg_state =
  IsDef :: bool
  IsImp :: bool
  IsKill :: bool
  IsDead :: bool

datatype machine_operand =
    MO_Register reg reg_state
  | MO_Immediate "64 word"
  | MO_FrameIndex int

text \<open>
  The instruction descriptor (\<^verbatim>\<open>MCInstrDesc\<close>): the properties the source reads
  (\<^verbatim>\<open>isReturn\<close>, \<^verbatim>\<open>isCall\<close>, \<^verbatim>\<open>isTerminator\<close>) and the implicit operands a new
  instruction of that opcode starts with.
\<close>

record mc_instr_desc =
  isReturn :: bool
  isCall :: bool
  isTerminator :: bool
  ImplicitDefs :: "reg list"
  ImplicitUses :: "reg list"

text \<open>
  An instruction is its opcode, its operands and the \<^verbatim>\<open>FrameSetup\<close> flag; its
  descriptor is the entry of its opcode in the instruction table.
\<close>

record machine_instr =
  Opcode :: opcode
  Operands :: "machine_operand list"
  FrameSetup :: bool

text \<open>
  The instruction table (\<^verbatim>\<open>AVRInstrInfo\<close>) and the register table
  (\<^verbatim>\<open>TargetRegisterInfo\<close>) are parameters: \<open>get\<close> is \<^verbatim>\<open>TII.get(Opcode)\<close>,
  \<open>RegSize r\<close> is \<^verbatim>\<open>TRI->getMinimalPhysRegClass(r)->getSize()\<close>, and
  \<^verbatim>\<open>MI.getDesc()\<close> is \<open>get TII (Opcode MI)\<close>.
\<close>

record instr_info =
  get :: "opcode \<Rightarrow> mc_instr_desc"
  CallFrameSetupOpcode :: opcode
  CallFrameDestroyOpcode :: opcode

record register_info =
  getSubReg :: "reg \<Rightarrow> subreg_index \<Rightarrow> reg"
  RegSize :: "reg \<Rightarrow> nat"

subsection \<open>Blocks, frame information, functions\<close>

record machine_basic_block =
  Instrs :: "machine_instr list"
  LiveIns :: "reg list"

record stack_object =
  Size :: "64 word"

text \<open>
  Modelled from the spec: \<^verbatim>\<open>MachineFrameInfo\<close> is not among the sources. The stack
  object table holds the fixed (incoming-argument) slots, addressed by the negative
  frame indices \<open>-n .. -1\<close>, and the other slots, addressed by \<open>0, 1, ..\<close>; a
  variable-sized object has nominal size zero. Frame indices are C \<^verbatim>\<open>int\<close>s, so
  both tables have fewer than \<open>2^31\<close> entries and their lengths are not truncated.
\<close>

record machine_frame_info =
  FixedObjects :: "stack_object list"
  Objects :: "stack_object list"
  HasVarSizedObjects :: bool
  StackSize :: "64 word"
  MaxCallFrameSize :: "32 word"

text \<open>The per-function metadata (\<^verbatim>\<open>AVRMachineFunctionInfo\<close>).\<close>

record avr_machine_function_info =
  HasSpills :: bool
  HasAllocas :: bool
  HasStackArgs :: bool
  CalleeSavedFrameSize :: "32 word"

record machine_function =
  CallConv :: calling_conv
  FrameInfo :: machine_frame_info
  Info :: avr_machine_function_info
  Blocks :: "machine_basic_block list"
  NumVirtRegs :: nat

record callee_saved_info =
  getReg :: reg
  getFrameIdx :: int

text \<open>The constructor arguments of \<^verbatim>\<open>TargetFrameLowering\<close>.\<close>

datatype stack_direction = StackGrowsUp | StackGrowsDown

record target_frame_lowering =
  StackDir :: stack_direction
  StackAlignment :: nat
  LocalAreaOffset :: int

definition AVRFrameLowering :: target_frame_lowering where
  "AVRFrameLowering =
     \<lparr>StackDir = StackGrowsDown, StackAlignment = 1, LocalAreaOffset = - 2\<rparr>"

subsection \<open>Helpers of the code generator\<close>

text \<open>
  Modelled from the spec: \<^verbatim>\<open>isUInt<6>\<close> (MathExtras.h) is not among the sources;
  a value fits in 6 unsigned bits when it is one of 0 .. 63. The argument is a
  \<^verbatim>\<open>uint64_t\<close>.
\<close>

definition isUInt6 :: "64 word \<Rightarrow> bool" where
  "isUInt6 x = (x < 64)"

text \<open>\<^verbatim>\<open>getKillRegState\<close>, \<^verbatim>\<open>RegState::Define\<close> and a plain use.\<close>

definition useReg :: "reg \<Rightarrow> bool \<Rightarrow> machine_operand" where
  "useReg r kill =
     MO_Register r \<lparr>IsDef = False, IsImp = False, IsKill = kill, IsDead = False\<rparr>"

definition defReg :: "reg \<Rightarrow> machine_operand" where
  "defReg r = MO_Register r \<lparr>IsDef = True, IsImp = False, IsKill = False, IsDead = False\<rparr>"

definition implicitOperands :: "mc_instr_desc \<Rightarrow> machine_operand list" where
  "implicitOperands d =
     map (\<lambda>r. MO_Register r \<lparr>IsDef = True, IsImp = True, IsKill = False, IsDead = False\<rparr>)
       (ImplicitDefs d) @
     map (\<lambda>r. MO_Register r \<lparr>IsDef = False, IsImp = True, IsKill = False, IsDead = False\<rparr>)
       (ImplicitUses d)"

text \<open>
  Modelled from the spec: \<^verbatim>\<open>BuildMI\<close> and \<^verbatim>\<open>MachineInstrBuilder\<close> are not among
  the sources. A new instruction has its explicit operands in the order they are added, then the implicit operands of the
  descriptor (implicit definitions before implicit uses).
\<close>

definition BuildMI :: "instr_info \<Rightarrow> opcode \<Rightarrow> machine_operand list \<Rightarrow> bool \<Rightarrow> machine_instr" where
  "BuildMI TII opc ops fs =
     \<lparr>Opcode = opc, Operands = ops @ implicitOperands (get TII opc), FrameSetup = fs\<rparr>"

text \<open>Insertion before an iterator; the result is the new list and the moved iterator.\<close>

definition insertBefore ::
  "machine_instr list \<Rightarrow> nat \<Rightarrow> machine_instr list \<Rightarrow> machine_instr list \<times> nat" where
  "insertBefore is pos new = (take pos is @ new @ drop pos is, pos + length new)"

text \<open>
  Modelled from the spec: \<^verbatim>\<open>MachineOperand::setIsDead\<close> and
  \<^verbatim>\<open>MachineInstr::getOperand\<close> are not among the sources. Marking operand \<open>i\<close> dead
  asserts that the operand exists and is a register definition.
\<close>

definition setIsDead :: "nat \<Rightarrow> machine_instr \<Rightarrow> error + machine_instr" where
  "setIsDead i MI =
     (if length (Operands MI) \<le> i then Inl (AssertionFailed ''getOperand() out of range!'')
      else case Operands MI ! i of
        MO_Register r st \<Rightarrow>
          if IsDef st
          then Inr (MI\<lparr>Operands := (Operands MI)[i := MO_Register r (st\<lparr>IsDead := True\<rparr>)]\<rparr>)
          else Inl (AssertionFailed ''Wrong MachineOperand accessor'')
      | _ \<Rightarrow> Inl (AssertionFailed ''Wrong MachineOperand accessor''))"

text \<open>
  Modelled from the spec: \<^verbatim>\<open>MachineBasicBlock::getLastNonDebugInstr\<close> is not among the
  sources. It is the iterator of the last instruction that is not a debug value,
  and \<^verbatim>\<open>end()\<close> when the block has none. Dereferencing \<^verbatim>\<open>end()\<close> is the
  error \<open>InvalidIterator\<close>.
\<close>

fun lastNonDebug :: "machine_instr list \<Rightarrow> nat option" where
  "lastNonDebug [] = None"
| "lastNonDebug (I # is) =
     (case lastNonDebug is of
        Some k \<Rightarrow> Some (Suc k)
      | None \<Rightarrow> if Opcode I = DBG_VALUE then None else Some 0)"

definition getLastNonDebugInstr :: "machine_instr list \<Rightarrow> nat" where
  "getLastNonDebugInstr is = (case lastNonDebug is of Some k \<Rightarrow> k | None \<Rightarrow> length is)"

subsection \<open>Frame policy\<close>

definition canSimplifyCallFramePseudos :: "machine_function \<Rightarrow> bool" where
  "canSimplifyCallFramePseudos MF = True"

definition hasFP :: "machine_function \<Rightarrow> bool" where
  "hasFP MF =
     (HasSpills (Info MF) \<or> HasAllocas (Info MF) \<or> HasStackArgs (Info MF))"

definition hasReservedCallFrame :: "machine_function \<Rightarrow> bool" where
  "hasReservedCallFrame MF =
     (hasFP MF
      \<and> \<not> HasVarSizedObjects (FrameInfo MF)
      \<and> isUInt6 (ucast (MaxCallFrameSize (FrameInfo MF))))"

subsection \<open>Prologue and epilogue\<close>

text \<open>
  \<^verbatim>\<open>MFI->getStackSize() - AFI->getCalleeSavedFrameSize()\<close>, a 64-bit difference stored
  in an \<^verbatim>\<open>unsigned\<close>.
\<close>

definition FrameSize :: "machine_function \<Rightarrow> 32 word" where
  "FrameSize MF =
     ucast (StackSize (FrameInfo MF) - ucast (CalleeSavedFrameSize (Info MF)))"

definition setInstrs :: "machine_function \<Rightarrow> nat \<Rightarrow> machine_instr list \<Rightarrow> machine_function" where
  "setInstrs MF b is = MF\<lparr>Blocks := (Blocks MF)[b := (Blocks MF ! b)\<lparr>Instrs := is\<rparr>]\<rparr>"

definition addLiveIn :: "reg \<Rightarrow> machine_basic_block \<Rightarrow> machine_basic_block" where
  "addLiveIn r MBB = MBB\<lparr>LiveIns := LiveIns MBB @ [r]\<rparr>"

text \<open>The loop over \<^verbatim>\<open>std::next(MF.begin()) .. MF.end()\<close>.\<close>

definition addLiveInExceptEntry :: "reg \<Rightarrow> machine_function \<Rightarrow> machine_function" where
  "addLiveInExceptEntry r MF =
     MF\<lparr>Blocks := (case Blocks MF of [] \<Rightarrow> [] | E # rest \<Rightarrow> E # map (addLiveIn r) rest)\<rparr>"

text \<open>
  The loop that skips the callee-saved pushes: the number of push instructions
  at the head of the instructions from the iterator on.
\<close>

fun skipPushes :: "machine_instr list \<Rightarrow> nat" where
  "skipPushes [] = 0"
| "skipPushes (I # is) =
     (if Opcode I = PUSHRr \<or> Opcode I = PUSHWRr then Suc (skipPushes is) else 0)"

definition emitPrologue :: "instr_info \<Rightarrow> machine_function \<Rightarrow> nat \<Rightarrow> error + machine_function" where
  "emitPrologue TII MF b =
     (let MBB = Blocks MF ! b;
          MBBI = 0;
          CC = CallConv MF;
          (is1, MBBI1) =
            (if CC = AVR_INTR
             then insertBefore (Instrs MBB) MBBI [BuildMI TII BSETs [MO_Immediate 0x07] True]
             else (Instrs MBB, MBBI));
          (is2, MBBI2) =
            (if CC = AVR_INTR \<or> CC = AVR_SIGNAL
             then insertBefore is1 MBBI1
                    [BuildMI TII PUSHWRr [useReg R1R0 True] True,
                     BuildMI TII INRdA [defReg R0, MO_Immediate 0x3f] True,
                     BuildMI TII PUSHRr [useReg R0 True] True]
             else (is1, MBBI1))
      in if \<not> hasFP MF then Inr (setInstrs MF b is2)
         else
           let FS = FrameSize MF;
               MBBI3 = MBBI2 + skipPushes (drop MBBI2 is2);
               (is3, MBBI4) =
                 insertBefore is2 MBBI3 [BuildMI TII SPREAD [defReg R29R28, useReg SP False] True];
               MF1 = addLiveInExceptEntry R29R28 (setInstrs MF b is3)
           in if FS = 0 then Inr MF1
              else
                let Opc = (if isUInt6 (ucast FS) then SBIWRdK else SUBIWRdK) in
                case setIsDead 3
                       (BuildMI TII Opc
                          [defReg R29R28, useReg R29R28 True, MO_Immediate (ucast FS)] True) of
                  Inl e \<Rightarrow> Inl e
                | Inr MI \<Rightarrow>
                    Inr (setInstrs MF1 b
                      (fst (insertBefore is3 MBBI4
                         [MI, BuildMI TII SPWRITE [defReg SP, useReg R29R28 False] True]))))"

text \<open>
  The backward loop that skips the callee-saved pops: from the iterator, while the
  instruction before it is a pop or a terminator.
\<close>

fun skipPops :: "instr_info \<Rightarrow> machine_instr list \<Rightarrow> nat \<Rightarrow> nat" where
  "skipPops TII is 0 = 0"
| "skipPops TII is (Suc n) =
     (let PI = is ! n; Opc = Opcode PI in
      if (Opc \<noteq> POPRd \<and> Opc \<noteq> POPWRd) \<and> \<not> isTerminator (get TII (Opcode PI))
      then Suc n
      else skipPops TII is n)"

definition emitEpilogue :: "instr_info \<Rightarrow> machine_function \<Rightarrow> nat \<Rightarrow> error + machine_function" where
  "emitEpilogue TII MF b =
     (let CC = CallConv MF;
          isHandler = (CC = AVR_INTR \<or> CC = AVR_SIGNAL)
      in if \<not> hasFP MF \<and> \<not> isHandler then Inr MF
         else
           let MBB = Blocks MF ! b;
               MBBI = getLastNonDebugInstr (Instrs MBB)
           in if MBBI = length (Instrs MBB) then Inl InvalidIterator
              else if \<not> isReturn (get TII (Opcode (Instrs MBB ! MBBI)))
              then Inl (AssertionFailed ''Can only insert epilog into returning blocks'')
              else
                let FS = FrameSize MF;
                    (is1, MBBI1) =
                      (if isHandler
                       then insertBefore (Instrs MBB) MBBI
                              [BuildMI TII POPRd [defReg R0] False,
                               BuildMI TII OUTARr [MO_Immediate 0x3f, useReg R0 True] False,
                               BuildMI TII POPWRd [defReg R1R0] False]
                       else (Instrs MBB, MBBI))
                in if FS = 0 then Inr (setInstrs MF b is1)
                   else
                     let MBBI2 = skipPops TII is1 MBBI1;
                         (Opc, FS') =
                           (if isUInt6 (ucast FS) then (ADIWRdK, FS) else (SUBIWRdK, - FS))
                     in case setIsDead 3
                               (BuildMI TII Opc
                                  [defReg R29R28, useReg R29R28 True, MO_Immediate (ucast FS')]
                                  False) of
                          Inl e \<Rightarrow> Inl e
                        | Inr MI \<Rightarrow>
                            Inr (setInstrs MF b
                              (fst (insertBefore is1 MBBI2
                                 [MI, BuildMI TII SPWRITE [defReg SP, useReg R29R28 True] False]))))"


text \<open>
  The instructions the two handler-convention branches of the prologue insert, and
  the ones the handler branch of the epilogue inserts.
\<close>

definition handlerPrologue :: "instr_info \<Rightarrow> calling_conv \<Rightarrow> machine_instr list" where
  "handlerPrologue TII CC =
     (if CC = AVR_INTR then [BuildMI TII BSETs [MO_Immediate 0x07] True] else []) @
     (if CC = AVR_INTR \<or> CC = AVR_SIGNAL
      then [BuildMI TII PUSHWRr [useReg R1R0 True] True,
            BuildMI TII INRdA [defReg R0, MO_Immediate 0x3f] True,
            BuildMI TII PUSHRr [useReg R0 True] True]
      else [])"

definition handlerEpilogue :: "instr_info \<Rightarrow> calling_conv \<Rightarrow> machine_instr list" where
  "handlerEpilogue TII CC =
     (if CC = AVR_INTR \<or> CC = AVR_SIGNAL
      then [BuildMI TII POPRd [defReg R0] False,
            BuildMI TII OUTARr [MO_Immediate 0x3f, useReg R0 True] False,
            BuildMI TII POPWRd [defReg R1R0] False]
      else [])"

subsection \<open>Callee-saved registers\<close>

text \<open>
  The body of the spill loop, over the registers in the order the loop visits them:
  the pushes emitted, the live-in list of the block and \<^verbatim>\<open>CalleeFrameSize\<close>.
  \<^verbatim>\<open>MBB.isLiveIn\<close> is membership in the live-in list, \<^verbatim>\<open>MBB.addLiveIn\<close> appends.
\<close>

fun spillLoop ::
  "instr_info \<Rightarrow> register_info \<Rightarrow> reg list \<Rightarrow> reg list \<Rightarrow> 32 word \<Rightarrow>
   error + (machine_instr list \<times> reg list \<times> 32 word)" where
  "spillLoop TII TRI [] L n = Inr ([], L, n)"
| "spillLoop TII TRI (r # rs) L n =
     (let IsNotLiveIn = (r \<notin> set L) in
      if RegSize TRI r \<noteq> 1 then Inl (AssertionFailed ''Invalid register size'')
      else
        case spillLoop TII TRI rs (if IsNotLiveIn then L @ [r] else L) (n + 1) of
          Inl e \<Rightarrow> Inl e
        | Inr (ps, L', n') \<Rightarrow>
            Inr (BuildMI TII PUSHRr [useReg r IsNotLiveIn] True # ps, L', n'))"

text \<open>
  The counter of both loops is an \<^verbatim>\<open>unsigned\<close> initialised from \<^verbatim>\<open>CSI.size()\<close>:
  the loops visit the first \<open>length CSI mod 2^32\<close> entries, the spill loop from the
  last of them down to the first. All pushes go before the same iterator \<open>MI\<close>, so
  they stand there in the order of emission.
\<close>

definition csiCount :: "callee_saved_info list \<Rightarrow> nat" where
  "csiCount CSI = unat (word_of_nat (length CSI) :: 32 word)"

definition spillCalleeSavedRegisters ::
  "instr_info \<Rightarrow> register_info \<Rightarrow> machine_function \<Rightarrow> nat \<Rightarrow> nat \<Rightarrow>
   callee_saved_info list \<Rightarrow> error + (bool \<times> machine_function)" where
  "spillCalleeSavedRegisters TII TRI MF b MI CSI =
     (if CSI = [] then Inr (False, MF)
      else
        let MBB = Blocks MF ! b in
        case spillLoop TII TRI (map getReg (rev (take (csiCount CSI) CSI))) (LiveIns MBB) 0 of
          Inl e \<Rightarrow> Inl e
        | Inr (pushes, L, CalleeFrameSize) \<Rightarrow>
            Inr (True,
              MF\<lparr>Blocks := (Blocks MF)[b :=
                     MBB\<lparr>Instrs := fst (insertBefore (Instrs MBB) MI pushes), LiveIns := L\<rparr>],
                 Info := (Info MF)\<lparr>CalleeSavedFrameSize := CalleeFrameSize\<rparr>\<rparr>))"

fun restoreLoop ::
  "instr_info \<Rightarrow> register_info \<Rightarrow> reg list \<Rightarrow> error + machine_instr list" where
  "restoreLoop TII TRI [] = Inr []"
| "restoreLoop TII TRI (r # rs) =
     (if RegSize TRI r \<noteq> 1 then Inl (AssertionFailed ''Invalid register size'')
      else
        case restoreLoop TII TRI rs of
          Inl e \<Rightarrow> Inl e
        | Inr ps \<Rightarrow> Inr (BuildMI TII POPRd [defReg r] False # ps))"

definition restoreCalleeSavedRegisters ::
  "instr_info \<Rightarrow> register_info \<Rightarrow> machine_function \<Rightarrow> nat \<Rightarrow> nat \<Rightarrow>
   callee_saved_info list \<Rightarrow> error + (bool \<times> machine_function)" where
  "restoreCalleeSavedRegisters TII TRI MF b MI CSI =
     (if CSI = [] then Inr (False, MF)
      else
        case restoreLoop TII TRI (map getReg (take (csiCount CSI) CSI)) of
          Inl e \<Rightarrow> Inl e
        | Inr pops \<Rightarrow>
            Inr (True, setInstrs MF b (fst (insertBefore (Instrs (Blocks MF ! b)) MI pops))))"

subsection \<open>Call-frame pseudo instructions\<close>

text \<open>
  Modelled from the spec: the operand accessors of \<^verbatim>\<open>MachineInstr\<close> and
  \<^verbatim>\<open>MachineOperand\<close> are not among the sources. \<^verbatim>\<open>getOperand(i).getReg()\<close> and
  \<^verbatim>\<open>getOperand(i).getImm()\<close> assert that the operand exists and has that kind.
\<close>

definition getRegOperand :: "machine_instr \<Rightarrow> nat \<Rightarrow> error + (reg \<times> reg_state)" where
  "getRegOperand MI i =
     (if length (Operands MI) \<le> i then Inl (AssertionFailed ''getOperand() out of range!'')
      else case Operands MI ! i of
        MO_Register r st \<Rightarrow> Inr (r, st)
      | _ \<Rightarrow> Inl (AssertionFailed ''This is not a register operand!''))"

definition getImmOperand :: "machine_instr \<Rightarrow> nat \<Rightarrow> error + 64 word" where
  "getImmOperand MI i =
     (if length (Operands MI) \<le> i then Inl (AssertionFailed ''getOperand() out of range!'')
      else case Operands MI ! i of
        MO_Immediate v \<Rightarrow> Inr v
      | _ \<Rightarrow> Inl (AssertionFailed ''Wrong MachineOperand accessor''))"

text \<open>
  The loop of \<^verbatim>\<open>fixStackStores\<close> over the instructions from the iterator to the end
  of the block. It stops at the first call; what it returns replaces the
  instructions it was given.
\<close>

fun fixStackStoresLoop ::
  "instr_info \<Rightarrow> register_info \<Rightarrow> bool \<Rightarrow> machine_instr list \<Rightarrow> error + machine_instr list" where
  "fixStackStoresLoop TII TRI insertPushes [] = Inr []"
| "fixStackStoresLoop TII TRI insertPushes (I # rest) =
     (if isCall (get TII (Opcode I)) then Inr (I # rest)
      else if Opcode I \<noteq> STDSPQRr \<and> Opcode I \<noteq> STDWSPQRr then
        (case fixStackStoresLoop TII TRI insertPushes rest of
           Inl e \<Rightarrow> Inl e
         | Inr rest' \<Rightarrow> Inr (I # rest'))
      else
        case getRegOperand I 0 of
          Inl e \<Rightarrow> Inl e
        | Inr (Base, st0) \<Rightarrow>
            if Base \<noteq> SP then Inl (AssertionFailed ''Invalid register, should be SP!'')
            else if insertPushes then
              (case getRegOperand I 2 of
                 Inl e \<Rightarrow> Inl e
               | Inr (SrcReg, st2) \<Rightarrow>
                   let SrcIsKill = IsKill st2;
                       pushes =
                         (if Opcode I = STDWSPQRr
                          then [BuildMI TII PUSHRr [useReg (getSubReg TRI SrcReg sub_hi) SrcIsKill] False,
                                BuildMI TII PUSHRr [useReg (getSubReg TRI SrcReg sub_lo) SrcIsKill] False]
                          else [BuildMI TII PUSHRr [useReg SrcReg SrcIsKill] False])
                   in case fixStackStoresLoop TII TRI insertPushes rest of
                        Inl e \<Rightarrow> Inl e
                      | Inr rest' \<Rightarrow> Inr (pushes @ rest'))
            else
              (case getImmOperand I 1 of
                 Inl e \<Rightarrow> Inl e
               | Inr Q \<Rightarrow>
                   if \<not> isUInt6 Q then Inl (AssertionFailed ''Offset is out of range'')
                   else
                     let STOpc = (if Opcode I = STDWSPQRr then STDWPtrQRr else STDPtrQRr);
                         I' = I\<lparr>Opcode := STOpc,
                                Operands := (Operands I)[0 := MO_Register R29R28 st0]\<rparr>
                     in case fixStackStoresLoop TII TRI insertPushes rest of
                          Inl e \<Rightarrow> Inl e
                        | Inr rest' \<Rightarrow> Inr (I' # rest')))"

definition fixStackStores ::
  "instr_info \<Rightarrow> register_info \<Rightarrow> machine_instr list \<Rightarrow> nat \<Rightarrow> bool \<Rightarrow>
   error + machine_instr list" where
  "fixStackStores TII TRI is MI insertPushes =
     (case fixStackStoresLoop TII TRI insertPushes (drop MI is) of
        Inl e \<Rightarrow> Inl e
      | Inr rest' \<Rightarrow> Inr (take MI is @ rest'))"

definition erase :: "machine_instr list \<Rightarrow> nat \<Rightarrow> machine_instr list" where
  "erase is pos = take pos is @ drop (Suc pos) is"

text \<open>
  \<open>TFI\<close> is the frame lowering the target machine hands out; its
  \<^verbatim>\<open>hasReservedCallFrame\<close> is the one above. On the push path the loop erases a store
  placeholder it starts on, and erasing the marker again is the error
  \<open>InvalidIterator\<close>. \<^verbatim>\<open>Amount\<close> is an \<^verbatim>\<open>int\<close>: the immediate truncated to 32 bits,
  sign-extended where it is passed on.
\<close>

definition eliminateCallFramePseudoInstr ::
  "target_frame_lowering \<Rightarrow> instr_info \<Rightarrow> register_info \<Rightarrow> machine_function \<Rightarrow> nat \<Rightarrow> nat \<Rightarrow>
   error + machine_function" where
  "eliminateCallFramePseudoInstr TFI TII TRI MF b MI =
     (let is = Instrs (Blocks MF ! b) in
      if hasReservedCallFrame MF then
        (case fixStackStores TII TRI is MI False of
           Inl e \<Rightarrow> Inl e
         | Inr is' \<Rightarrow> Inr (setInstrs MF b (erase is' MI)))
      else
        let Opc = Opcode (is ! MI) in
        case getImmOperand (is ! MI) 0 of
          Inl e \<Rightarrow> Inl e
        | Inr imm \<Rightarrow>
            let Amount = (ucast imm :: 32 word) in
            if Amount \<noteq> 0 then
              if StackAlignment TFI \<noteq> 1 then Inl (AssertionFailed ''Unsupported stack alignment'')
              else if Opc = CallFrameSetupOpcode TII then
                (case fixStackStores TII TRI is MI True of
                   Inl e \<Rightarrow> Inl e
                 | Inr is' \<Rightarrow>
                     if (Opc = STDSPQRr \<or> Opc = STDWSPQRr) \<and> \<not> isCall (get TII Opc)
                     then Inl InvalidIterator
                     else Inr (setInstrs MF b (erase is' MI)))
              else if Opc \<noteq> CallFrameDestroyOpcode TII
              then Inl (AssertionFailed ''Opcode == TII.getCallFrameDestroyOpcode()'')
              else
                let (addOpcode, Amount') =
                      (if isUInt6 (scast Amount) then (ADIWRdK, Amount) else (SUBIWRdK, - Amount))
                in case setIsDead 3
                          (BuildMI TII addOpcode
                             [defReg R31R30, useReg R31R30 True, MO_Immediate (scast Amount')]
                             False) of
                     Inl e \<Rightarrow> Inl e
                   | Inr New \<Rightarrow>
                       (case insertBefore is MI
                               [BuildMI TII SPREAD [defReg R31R30, useReg SP False] False,
                                New,
                                BuildMI TII SPWRITE [defReg SP, useReg R31R30 True] False] of
                          (is', MI') \<Rightarrow> Inr (setInstrs MF b (erase is' MI')))
            else Inr (setInstrs MF b (erase is MI)))"


subsection \<open>The frame analyzer pass\<close>

text \<open>
  Modelled from the spec: the accessors of \<^verbatim>\<open>MachineFrameInfo\<close> are not among the
  sources. \<^verbatim>\<open>getNumObjects\<close> counts all slots, \<^verbatim>\<open>getNumFixedObjects\<close> the fixed ones,
  \<^verbatim>\<open>getObjectIndexEnd\<close> is one past the last non-fixed index, \<^verbatim>\<open>getObjectSize(i)\<close>
  for \<open>0 \<le> i\<close> is the nominal size of the non-fixed slot \<open>i\<close>, and a frame index
  is fixed when it is negative and not below \<open>- getNumFixedObjects\<close>.
\<close>

definition getNumObjects :: "machine_frame_info \<Rightarrow> nat" where
  "getNumObjects MFI = length (FixedObjects MFI) + length (Objects MFI)"

definition getNumFixedObjects :: "machine_frame_info \<Rightarrow> nat" where
  "getNumFixedObjects MFI = length (FixedObjects MFI)"

definition isFixedObjectIndex :: "machine_frame_info \<Rightarrow> int \<Rightarrow> bool" where
  "isFixedObjectIndex MFI idx = (idx < 0 \<and> - int (getNumFixedObjects MFI) \<le> idx)"

text \<open>
  The loop over the frame indices \<open>0 .. getObjectIndexEnd\<close>, which leaves at the
  first slot of non-zero size.
\<close>

fun anySizedObject :: "stack_object list \<Rightarrow> bool" where
  "anySizedObject [] = False"
| "anySizedObject (ob # obs) = (if Size ob \<noteq> 0 then True else anySizedObject obs)"

text \<open>The three nested loops of the scan, each leaving at the first fixed frame index.\<close>

fun scanOperands :: "machine_frame_info \<Rightarrow> machine_operand list \<Rightarrow> bool" where
  "scanOperands MFI [] = False"
| "scanOperands MFI (MO # ops) =
     (case MO of
        MO_FrameIndex idx \<Rightarrow> if isFixedObjectIndex MFI idx then True else scanOperands MFI ops
      | _ \<Rightarrow> scanOperands MFI ops)"

fun scanInstrs :: "machine_frame_info \<Rightarrow> machine_instr list \<Rightarrow> bool" where
  "scanInstrs MFI [] = False"
| "scanInstrs MFI (MI # is) =
     (if Opcode MI \<noteq> LDDRdPtrQ \<and> Opcode MI \<noteq> LDDWRdPtrQ
         \<and> Opcode MI \<noteq> STDPtrQRr \<and> Opcode MI \<noteq> STDWPtrQRr
      then scanInstrs MFI is
      else if scanOperands MFI (Operands MI) then True
      else scanInstrs MFI is)"

fun scanBlocks :: "machine_frame_info \<Rightarrow> machine_basic_block list \<Rightarrow> bool" where
  "scanBlocks MFI [] = False"
| "scanBlocks MFI (BB # bbs) =
     (if scanInstrs MFI (Instrs BB) then True else scanBlocks MFI bbs)"

definition AVRFrameAnalyzer :: "machine_function \<Rightarrow> bool \<times> machine_function" where
  "AVRFrameAnalyzer MF =
     (let MFI = FrameInfo MF;
          FuncInfo1 =
            (if getNumObjects MFI - getNumFixedObjects MFI \<noteq> 0 \<and> anySizedObject (Objects MFI)
             then (Info MF)\<lparr>HasAllocas := True\<rparr>
             else Info MF)
      in if getNumFixedObjects MFI = 0 then (False, MF\<lparr>Info := FuncInfo1\<rparr>)
         else if scanBlocks MFI (Blocks MF)
         then (False, MF\<lparr>Info := FuncInfo1\<lparr>HasStackArgs := True\<rparr>\<rparr>)
         else (False, MF\<lparr>Info := FuncInfo1\<rparr>))"

subsection \<open>The dynamic-allocation stack pointer pass\<close>

text \<open>
  The body of the loop over the blocks: a block that is not empty and whose last
  instruction is a return gets the restoring copy before its last non-debug
  instruction.
\<close>

definition restoreSP ::
  "instr_info \<Rightarrow> reg \<Rightarrow> machine_basic_block \<Rightarrow> error + machine_basic_block" where
  "restoreSP TII SPCopy MBB =
     (if Instrs MBB \<noteq> [] \<and> isReturn (get TII (Opcode (last (Instrs MBB)))) then
        let MBBI = getLastNonDebugInstr (Instrs MBB) in
        if MBBI = length (Instrs MBB) then Inl InvalidIterator
        else Inr (MBB\<lparr>Instrs := fst (insertBefore (Instrs MBB) MBBI
                        [BuildMI TII COPY [defReg SP, useReg SPCopy True] False])\<rparr>)
      else Inr MBB)"

fun restoreSPLoop ::
  "instr_info \<Rightarrow> reg \<Rightarrow> machine_basic_block list \<Rightarrow> error + machine_basic_block list" where
  "restoreSPLoop TII SPCopy [] = Inr []"
| "restoreSPLoop TII SPCopy (MBB # bbs) =
     (case restoreSP TII SPCopy MBB of
        Inl e \<Rightarrow> Inl e
      | Inr MBB' \<Rightarrow>
          (case restoreSPLoop TII SPCopy bbs of
             Inl e \<Rightarrow> Inl e
           | Inr bbs' \<Rightarrow> Inr (MBB' # bbs')))"

text \<open>
  \<^verbatim>\<open>createVirtualRegister\<close> hands out the next virtual register number.
  \<^verbatim>\<open>MF.front()\<close> of a function without blocks is the error \<open>InvalidIterator\<close>.
\<close>

definition AVRDynAllocaSR :: "instr_info \<Rightarrow> machine_function \<Rightarrow> error + (bool \<times> machine_function)" where
  "AVRDynAllocaSR TII MF =
     (if \<not> HasVarSizedObjects (FrameInfo MF) then Inr (False, MF)
      else
        case Blocks MF of
          [] \<Rightarrow> Inl InvalidIterator
        | EntryMBB # rest \<Rightarrow>
            let SPCopy = VirtReg (NumVirtRegs MF);
                Entry' = EntryMBB\<lparr>Instrs := fst (insertBefore (Instrs EntryMBB) 0
                           [BuildMI TII COPY [defReg SPCopy, useReg SP False] False])\<rparr>
            in case restoreSPLoop TII SPCopy (Entry' # rest) of
                 Inl e \<Rightarrow> Inl e
               | Inr bbs \<Rightarrow> Inr (True, MF\<lparr>Blocks := bbs, NumVirtRegs := Suc (NumVirtRegs MF)\<rparr>))"

subsection \<open>The specification's words\<close>

text \<open>
  The replacement the specification asks for, written from its words: a one-byte
  store placeholder becomes one push of its source register, a two-byte
  placeholder two single-byte pushes with the high byte first, and any other
  instruction stays. A placeholder is well formed when its base operand is the
  stack pointer (the source asserts it) and its third operand is the source
  register.
\<close>

definition spec_storeAsPushes ::
  "instr_info \<Rightarrow> register_info \<Rightarrow> machine_instr \<Rightarrow> machine_instr list" where
  "spec_storeAsPushes TII TRI I =
     (case Operands I ! 2 of
        MO_Register Src st \<Rightarrow>
          if Opcode I = STDWSPQRr
          then [BuildMI TII PUSHRr [useReg (getSubReg TRI Src sub_hi) (IsKill st)] False,
                BuildMI TII PUSHRr [useReg (getSubReg TRI Src sub_lo) (IsKill st)] False]
          else if Opcode I = STDSPQRr
          then [BuildMI TII PUSHRr [useReg Src (IsKill st)] False]
          else [I]
      | _ \<Rightarrow> [I])"

definition wellFormedStore :: "machine_instr \<Rightarrow> bool" where
  "wellFormedStore I =
     (2 < length (Operands I) \<and>
      (case Operands I ! 0 of MO_Register Base st \<Rightarrow> Base = SP | _ \<Rightarrow> False) \<and>
      (case Operands I ! 2 of MO_Register Src st \<Rightarrow> True | _ \<Rightarrow> False))"

text \<open>
  What the specification asks of the guard pass for one block, written from its
  words: the entry block starts with the copy of the stack pointer into the
  scratch register, and a block whose last instruction is a return gets the copy
  back (the scratch register killed) right before that return.
\<close>

definition spec_guardedBlock ::
  "instr_info \<Rightarrow> reg \<Rightarrow> bool \<Rightarrow> machine_basic_block \<Rightarrow> machine_basic_block" where
  "spec_guardedBlock TII SPCopy entry BB =
     BB\<lparr>Instrs :=
          (if entry then [BuildMI TII COPY [defReg SPCopy, useReg SP False] False] else []) @
          (if Instrs BB \<noteq> [] \<and> isReturn (get TII (Opcode (last (Instrs BB))))
           then butlast (Instrs BB) @
                [BuildMI TII COPY [defReg SP, useReg SPCopy True] False, last (Instrs BB)]
           else Instrs BB)\<rparr>"

subsection \<open>A concrete target for the instances\<close>

text \<open>
  An instruction table in which \<open>TargetOp 0\<close> is the return (a terminator),
  \<open>TargetOp 1\<close> a call, \<open>TargetOp 2\<close> and \<open>TargetOp 3\<close> the call-frame setup and
  destroy pseudos, and the three word-immediate arithmetic opcodes define the status
  register implicitly; a register table in which the pairs are two bytes wide and
  the halves of \<open>R1R0\<close> are \<open>R1\<close> and \<open>R0\<close>.
\<close>

definition RET :: opcode where
  "RET = TargetOp 0"

definition CALL :: opcode where
  "CALL = TargetOp 1"

definition ADJCALLSTACKDOWN :: opcode where
  "ADJCALLSTACKDOWN = TargetOp 2"

definition ADJCALLSTACKUP :: opcode where
  "ADJCALLSTACKUP = TargetOp 3"

definition sampleTII :: instr_info where
  "sampleTII =
     \<lparr>get = (\<lambda>opc.
         \<lparr>isReturn = (opc = TargetOp 0), isCall = (opc = TargetOp 1),
          isTerminator = (opc = TargetOp 0),
          ImplicitDefs = (if opc = SBIWRdK \<or> opc = SUBIWRdK \<or> opc = ADIWRdK then [SREG] else []),
          ImplicitUses = []\<rparr>),
      CallFrameSetupOpcode = TargetOp 2,
      CallFrameDestroyOpcode = TargetOp 3\<rparr>"

definition sampleTRI :: register_info where
  "sampleTRI =
     \<lparr>getSubReg = (\<lambda>r i. if r = R1R0 then (case i of sub_lo \<Rightarrow> R0 | sub_hi \<Rightarrow> R1)
                          else if r = R29R28 then (case i of sub_lo \<Rightarrow> PhysReg 28 | sub_hi \<Rightarrow> PhysReg 29)
                          else if r = R31R30 then (case i of sub_lo \<Rightarrow> PhysReg 30 | sub_hi \<Rightarrow> PhysReg 31)
                          else r),
      RegSize = (\<lambda>r. if r = R1R0 \<or> r = R29R28 \<or> r = R31R30 \<or> r = SP then 2 else 1)\<rparr>"

definition mkInstr :: "opcode \<Rightarrow> machine_operand list \<Rightarrow> machine_instr" where
  "mkInstr opc ops = \<lparr>Opcode = opc, Operands = ops, FrameSetup = False\<rparr>"

definition emptyFrameInfo :: machine_frame_info where
  "emptyFrameInfo =
     \<lparr>FixedObjects = [], Objects = [], HasVarSizedObjects = False, StackSize = 0,
      MaxCallFrameSize = 0\<rparr>"

definition emptyInfo :: avr_machine_function_info where
  "emptyInfo =
     \<lparr>HasSpills = False, HasAllocas = False, HasStackArgs = False, CalleeSavedFrameSize = 0\<rparr>"

definition mkFunction :: "calling_conv \<Rightarrow> machine_instr list list \<Rightarrow> machine_function" where
  "mkFunction CC bbs =
     \<lparr>CallConv = CC, FrameInfo = emptyFrameInfo, Info = emptyInfo,
      Blocks = map (\<lambda>is. \<lparr>Instrs = is, LiveIns = []\<rparr>) bbs, NumVirtRegs = 0\<rparr>"

text \<open>A callee-saved list of two one-byte registers.\<close>

definition sampleCSI :: "callee_saved_info list" where
  "sampleCSI = [\<lparr>getReg = PhysReg 2, getFrameIdx = 0\<rparr>, \<lparr>getReg = PhysReg 3, getFrameIdx = 1\<rparr>]"

text \<open>A one-block function that has a fixed-size allocation and a stack of \<open>sz\<close> bytes.\<close>

definition frameMF :: "calling_conv \<Rightarrow> 64 word \<Rightarrow> machine_instr list \<Rightarrow> machine_function" where
  "frameMF CC sz is =
     (mkFunction CC [is])
       \<lparr>FrameInfo := emptyFrameInfo\<lparr>StackSize := sz\<rparr>, Info := emptyInfo\<lparr>HasAllocas := True\<rparr>\<rparr>"

text \<open>
  A function with one fixed slot, one variable-sized object and a load from the
  fixed slot.
\<close>

definition analyzerMF :: machine_function where
  "analyzerMF =
     (mkFunction (OtherCC 0)
        [[mkInstr LDDRdPtrQ [defReg (PhysReg 24), MO_FrameIndex (- 1), MO_Immediate 0]]])
       \<lparr>FrameInfo := emptyFrameInfo\<lparr>FixedObjects := [\<lparr>Size = 2\<rparr>], Objects := [\<lparr>Size = 0\<rparr>]\<rparr>\<rparr>"

text \<open>A call site: the setup marker, two placeholders, the call and a later placeholder.\<close>

definition callSiteBlock :: "machine_instr list" where
  "callSiteBlock =
     [mkInstr ADJCALLSTACKDOWN [MO_Immediate 3],
      mkInstr STDWSPQRr [useReg SP False, MO_Immediate 1, useReg R1R0 True],
      mkInstr STDSPQRr [useReg SP False, MO_Immediate 0, useReg (PhysReg 5) False],
      mkInstr CALL [],
      mkInstr STDSPQRr [useReg SP False, MO_Immediate 0, useReg (PhysReg 6) False]]"

text \<open>
  A function with a variable-sized object and three blocks: one that does not
  return, one that ends in a return, one whose last instruction is a debug value.
\<close>

definition guardMF :: machine_function where
  "guardMF =
     (mkFunction (OtherCC 0)
        [[mkInstr STDPtrQRr []], [mkInstr RET []], [mkInstr RET [], mkInstr DBG_VALUE []]])
       \<lparr>FrameInfo := emptyFrameInfo\<lparr>HasVarSizedObjects := True\<rparr>\<rparr>"

section \<open>Properties\<close>

subsection \<open>Auxiliary facts\<close>

lemma insertBefore_0 [simp]: "insertBefore is 0 new = (new @ is, length new)"
  by (simp add: insertBefore_def)

lemma isUInt6_ucast32: "isUInt6 (ucast (x :: 32 word)) = (unat x \<le> 63)"
proof -
  have "(ucast x :: 64 word) < 64 \<longleftrightarrow> unat (ucast x :: 64 word) < 64"
    by (simp add: word_less_nat_alt)
  also have "unat (ucast x :: 64 word) = unat x"
  proof -
    have "unat x < 2 ^ 32" using unsigned_less [of x] by simp
    then have "unat x < 2 ^ 64" by simp
    then show ?thesis by (simp add: unsigned_ucast_eq take_bit_nat_eq_self)
  qed
  finally show ?thesis by (auto simp add: isUInt6_def)
qed

lemma spillLoop_ok:
  "\<forall>r \<in> set rs. RegSize TRI r = 1 \<Longrightarrow>
   \<exists>ps L'. spillLoop TII TRI rs L n = Inr (ps, L', n + word_of_nat (length rs)) \<and>
           list_all2 (\<lambda>I r. \<exists>k. I = BuildMI TII PUSHRr [useReg r k] True) ps rs"
proof (induction rs arbitrary: L n)
  case Nil
  then show ?case by simp
next
  case (Cons r rs)
  from Cons.prems have rs: "\<forall>r \<in> set rs. RegSize TRI r = 1" and r: "RegSize TRI r = 1"
    by simp_all
  from Cons.IH [OF rs, of "if r \<notin> set L then L @ [r] else L" "n + 1"]
  obtain ps L' where
    step: "spillLoop TII TRI rs (if r \<notin> set L then L @ [r] else L) (n + 1) =
             Inr (ps, L', n + 1 + word_of_nat (length rs))"
    and ps: "list_all2 (\<lambda>I r. \<exists>k. I = BuildMI TII PUSHRr [useReg r k] True) ps rs"
    by blast
  have "spillLoop TII TRI (r # rs) L n =
          Inr (BuildMI TII PUSHRr [useReg r (r \<notin> set L)] True # ps, L',
               n + word_of_nat (length (r # rs)))"
    using r step by (simp add: Let_def add.assoc add.commute)
  moreover have "list_all2 (\<lambda>I r. \<exists>k. I = BuildMI TII PUSHRr [useReg r k] True)
                   (BuildMI TII PUSHRr [useReg r (r \<notin> set L)] True # ps) (r # rs)"
    using ps by auto
  ultimately show ?case by blast
qed

lemma restoreLoop_ok:
  "\<forall>r \<in> set rs. RegSize TRI r = 1 \<Longrightarrow>
   restoreLoop TII TRI rs = Inr (map (\<lambda>r. BuildMI TII POPRd [defReg r] False) rs)"
  by (induction rs) simp_all

lemma csiCount_small: "length CSI < 2 ^ 32 \<Longrightarrow> csiCount CSI = length CSI"
  by (simp add: csiCount_def unat_of_nat)

lemma handlerPrologue_opcodes:
  "map Opcode (handlerPrologue TII CC) =
     (if CC = AVR_INTR then [BSETs] else []) @
     (if CC = AVR_INTR \<or> CC = AVR_SIGNAL then [PUSHWRr, INRdA, PUSHRr] else [])"
  by (simp add: handlerPrologue_def BuildMI_def)

lemma handlerEpilogue_opcodes:
  "map Opcode (handlerEpilogue TII CC) =
     (if CC = AVR_INTR \<or> CC = AVR_SIGNAL then [POPRd, OUTARr, POPWRd] else [])"
  by (simp add: handlerEpilogue_def BuildMI_def)

lemma setIsDead_BuildMI:
  assumes "ImplicitDefs (get TII opc) \<noteq> []"
  shows "\<exists>MI. setIsDead 3 (BuildMI TII opc [x, y, z] fs) = Inr MI \<and>
              Opcode MI = opc \<and> Operands MI ! 2 = z \<and> FrameSetup MI = fs"
proof -
  from assms obtain d ds where "ImplicitDefs (get TII opc) = d # ds"
    by (cases "ImplicitDefs (get TII opc)") auto
  then show ?thesis
    by (simp add: setIsDead_def BuildMI_def implicitOperands_def)
qed

lemma Instrs_setInstrs:
  "b < length (Blocks MF) \<Longrightarrow> Instrs (Blocks (setInstrs MF b is) ! b) = is"
  by (simp add: setInstrs_def)

lemma length_Blocks_setInstrs [simp]: "length (Blocks (setInstrs MF b is)) = length (Blocks MF)"
  by (simp add: setInstrs_def)

lemma length_Blocks_addLiveIn [simp]:
  "length (Blocks (addLiveInExceptEntry r MF)) = length (Blocks MF)"
  by (cases "Blocks MF") (simp_all add: addLiveInExceptEntry_def)

lemma skipPushes_le: "skipPushes is \<le> length is"
  by (induction "is") simp_all

lemma emitPrologue_unfold:
  "emitPrologue TII MF b =
     (let is = Instrs (Blocks MF ! b);
          P = handlerPrologue TII (CallConv MF);
          k = skipPushes is
      in if \<not> hasFP MF then Inr (setInstrs MF b (P @ is))
         else
           let spread = BuildMI TII SPREAD [defReg R29R28, useReg SP False] True;
               MF1 = addLiveInExceptEntry R29R28
                       (setInstrs MF b (P @ take k is @ spread # drop k is))
           in if FrameSize MF = 0 then Inr MF1
              else
                case setIsDead 3
                       (BuildMI TII (if isUInt6 (ucast (FrameSize MF)) then SBIWRdK else SUBIWRdK)
                          [defReg R29R28, useReg R29R28 True,
                           MO_Immediate (ucast (FrameSize MF))] True) of
                  Inl e \<Rightarrow> Inl e
                | Inr MI \<Rightarrow>
                    Inr (setInstrs MF1 b
                      (P @ take k is @ spread #
                       [MI, BuildMI TII SPWRITE [defReg SP, useReg R29R28 False] True] @
                       drop k is)))"
  using skipPushes_le [of "Instrs (Blocks MF ! b)"]
  by (simp add: emitPrologue_def handlerPrologue_def insertBefore_def Let_def min_absorb2
        split: sum.splits)

lemma emitEpilogue_unfold:
  assumes "hasFP MF \<or> CallConv MF = AVR_INTR \<or> CallConv MF = AVR_SIGNAL"
    and "getLastNonDebugInstr (Instrs (Blocks MF ! b)) < length (Instrs (Blocks MF ! b))"
    and "isReturn (get TII (Opcode (Instrs (Blocks MF ! b) !
           getLastNonDebugInstr (Instrs (Blocks MF ! b)))))"
  shows "emitEpilogue TII MF b =
     (let is = Instrs (Blocks MF ! b);
          r = getLastNonDebugInstr is;
          H = handlerEpilogue TII (CallConv MF);
          is1 = take r is @ H @ drop r is;
          p = skipPops TII is1 (r + length H)
      in if FrameSize MF = 0 then Inr (setInstrs MF b is1)
         else
           case setIsDead 3
                  (BuildMI TII (if isUInt6 (ucast (FrameSize MF)) then ADIWRdK else SUBIWRdK)
                     [defReg R29R28, useReg R29R28 True,
                      MO_Immediate (ucast (if isUInt6 (ucast (FrameSize MF))
                                           then FrameSize MF else - FrameSize MF))] False) of
             Inl e \<Rightarrow> Inl e
           | Inr MI \<Rightarrow>
               Inr (setInstrs MF b
                 (take p is1 @
                  [MI, BuildMI TII SPWRITE [defReg SP, useReg R29R28 True] False] @
                  drop p is1)))"
proof -
  have go: "\<not> (\<not> hasFP MF \<and> \<not> (CallConv MF = AVR_INTR \<or> CallConv MF = AVR_SIGNAL))"
    using assms(1) by blast
  show ?thesis
  proof (cases "CallConv MF = AVR_INTR \<or> CallConv MF = AVR_SIGNAL")
    case True
    with go assms(2,3) show ?thesis
      unfolding emitEpilogue_def handlerEpilogue_def insertBefore_def Let_def
      by (simp split: sum.splits)
  next
    case False
    with go assms(2,3) show ?thesis
      unfolding emitEpilogue_def handlerEpilogue_def insertBefore_def Let_def
      by (simp split: sum.splits)
  qed
qed




lemma Instrs_addLiveInExceptEntry:
  "b < length (Blocks MF) \<Longrightarrow>
   Instrs (Blocks (addLiveInExceptEntry r MF) ! b) = Instrs (Blocks MF ! b)"
  by (cases "Blocks MF"; cases b) (simp_all add: addLiveInExceptEntry_def addLiveIn_def)

lemma prologue_adjust:
  assumes b: "b < length (Blocks MF)"
    and fp: "hasFP MF"
    and tbl: "ImplicitDefs (get TII SBIWRdK) \<noteq> []" "ImplicitDefs (get TII SUBIWRdK) \<noteq> []"
  shows "\<exists>MF' adj.
     emitPrologue TII MF b = Inr MF' \<and>
     Instrs (Blocks MF' ! b) =
       handlerPrologue TII (CallConv MF) @
       take (skipPushes (Instrs (Blocks MF ! b))) (Instrs (Blocks MF ! b)) @
       BuildMI TII SPREAD [defReg R29R28, useReg SP False] True # adj @
       drop (skipPushes (Instrs (Blocks MF ! b))) (Instrs (Blocks MF ! b)) \<and>
     (if FrameSize MF = 0 then adj = []
      else map Opcode adj = [if unat (FrameSize MF) \<le> 63 then SBIWRdK else SUBIWRdK, SPWRITE] \<and>
           Operands (hd adj) ! 2 = MO_Immediate (ucast (FrameSize MF)))"
proof (cases "FrameSize MF = 0")
  case True
  with b fp show ?thesis
    by (simp add: emitPrologue_unfold Let_def Instrs_addLiveInExceptEntry Instrs_setInstrs)
next
  case False
  define opc where "opc = (if isUInt6 (ucast (FrameSize MF)) then SBIWRdK else SUBIWRdK)"
  have "ImplicitDefs (get TII opc) \<noteq> []"
    using tbl by (simp add: opc_def)
  from setIsDead_BuildMI [OF this, of "defReg R29R28" "useReg R29R28 True"
         "MO_Immediate (ucast (FrameSize MF))" True]
  obtain MI where MI: "setIsDead 3 (BuildMI TII opc
        [defReg R29R28, useReg R29R28 True, MO_Immediate (ucast (FrameSize MF))] True) = Inr MI"
    and op: "Opcode MI = opc" and imm: "Operands MI ! 2 = MO_Immediate (ucast (FrameSize MF))"
    by blast
  have sel: "opc = (if unat (FrameSize MF) \<le> 63 then SBIWRdK else SUBIWRdK)"
    by (simp add: opc_def isUInt6_ucast32)
  let ?adj = "[MI, BuildMI TII SPWRITE [defReg SP, useReg R29R28 False] True]"
  let ?MF' = "setInstrs
       (addLiveInExceptEntry R29R28
          (setInstrs MF b
             (handlerPrologue TII (CallConv MF) @
              take (skipPushes (Instrs (Blocks MF ! b))) (Instrs (Blocks MF ! b)) @
              BuildMI TII SPREAD [defReg R29R28, useReg SP False] True #
              drop (skipPushes (Instrs (Blocks MF ! b))) (Instrs (Blocks MF ! b)))))
       b
       (handlerPrologue TII (CallConv MF) @
        take (skipPushes (Instrs (Blocks MF ! b))) (Instrs (Blocks MF ! b)) @
        BuildMI TII SPREAD [defReg R29R28, useReg SP False] True # ?adj @
        drop (skipPushes (Instrs (Blocks MF ! b))) (Instrs (Blocks MF ! b)))"
  have run: "emitPrologue TII MF b = Inr ?MF'"
    using fp False MI [unfolded opc_def] by (simp add: emitPrologue_unfold Let_def)
  have instrs: "Instrs (Blocks ?MF' ! b) =
       handlerPrologue TII (CallConv MF) @
       take (skipPushes (Instrs (Blocks MF ! b))) (Instrs (Blocks MF ! b)) @
       BuildMI TII SPREAD [defReg R29R28, useReg SP False] True # ?adj @
       drop (skipPushes (Instrs (Blocks MF ! b))) (Instrs (Blocks MF ! b))"
    using b by (simp add: Instrs_setInstrs)
  have adj: "map Opcode ?adj = [if unat (FrameSize MF) \<le> 63 then SBIWRdK else SUBIWRdK, SPWRITE]"
    using op sel by (simp add: BuildMI_def)
  have imm': "Operands (hd ?adj) ! 2 = MO_Immediate (ucast (FrameSize MF))"
    using imm by simp
  from run instrs adj imm' False show ?thesis
    by (intro exI [of _ ?MF'] exI [of _ ?adj]) simp
qed

lemma epilogue_adjust:
  assumes go: "hasFP MF \<or> CallConv MF = AVR_INTR \<or> CallConv MF = AVR_SIGNAL"
    and r: "getLastNonDebugInstr (Instrs (Blocks MF ! b)) < length (Instrs (Blocks MF ! b))"
    and ret: "isReturn (get TII (Opcode (Instrs (Blocks MF ! b) !
           getLastNonDebugInstr (Instrs (Blocks MF ! b)))))"
    and tbl: "ImplicitDefs (get TII ADIWRdK) \<noteq> []" "ImplicitDefs (get TII SUBIWRdK) \<noteq> []"
  shows "\<exists>pre post adj.
     emitEpilogue TII MF b = Inr (setInstrs MF b (pre @ adj @ post)) \<and>
     pre @ post =
       take (getLastNonDebugInstr (Instrs (Blocks MF ! b))) (Instrs (Blocks MF ! b)) @
       handlerEpilogue TII (CallConv MF) @
       drop (getLastNonDebugInstr (Instrs (Blocks MF ! b))) (Instrs (Blocks MF ! b)) \<and>
     (if FrameSize MF = 0 then adj = []
      else map Opcode adj = [if unat (FrameSize MF) \<le> 63 then ADIWRdK else SUBIWRdK, SPWRITE] \<and>
           Operands (hd adj) ! 2 =
             MO_Immediate (ucast (if unat (FrameSize MF) \<le> 63
                                  then FrameSize MF else - FrameSize MF)))"
proof -
  define is1 where "is1 =
       take (getLastNonDebugInstr (Instrs (Blocks MF ! b))) (Instrs (Blocks MF ! b)) @
       handlerEpilogue TII (CallConv MF) @
       drop (getLastNonDebugInstr (Instrs (Blocks MF ! b))) (Instrs (Blocks MF ! b))"
  define p where "p = skipPops TII is1
       (getLastNonDebugInstr (Instrs (Blocks MF ! b)) + length (handlerEpilogue TII (CallConv MF)))"
  show ?thesis
  proof (cases "FrameSize MF = 0")
    case True
    have "emitEpilogue TII MF b = Inr (setInstrs MF b (is1 @ [] @ []))"
      using True by (simp add: emitEpilogue_unfold [OF go r ret] Let_def is1_def)
    with True show ?thesis unfolding is1_def by (metis append_Nil2)
  next
    case False
    define opc where "opc = (if isUInt6 (ucast (FrameSize MF)) then ADIWRdK else SUBIWRdK)"
    define amt where
      "amt = (if isUInt6 (ucast (FrameSize MF)) then FrameSize MF else - FrameSize MF)"
    have "ImplicitDefs (get TII opc) \<noteq> []"
      using tbl by (simp add: opc_def)
    from setIsDead_BuildMI [OF this, of "defReg R29R28" "useReg R29R28 True"
           "MO_Immediate (ucast amt)" False]
    obtain MI where MI: "setIsDead 3 (BuildMI TII opc
          [defReg R29R28, useReg R29R28 True, MO_Immediate (ucast amt)] False) = Inr MI"
      and op: "Opcode MI = opc" and imm: "Operands MI ! 2 = MO_Immediate (ucast amt)"
      by blast
    let ?adj = "[MI, BuildMI TII SPWRITE [defReg SP, useReg R29R28 True] False]"
    have run: "emitEpilogue TII MF b = Inr (setInstrs MF b (take p is1 @ ?adj @ drop p is1))"
      using False MI
      by (simp add: emitEpilogue_unfold [OF go r ret] Let_def is1_def p_def opc_def amt_def)
    have split: "take p is1 @ drop p is1 = is1"
      by simp
    have adj: "map Opcode ?adj = [if unat (FrameSize MF) \<le> 63 then ADIWRdK else SUBIWRdK, SPWRITE]"
      using op by (simp add: opc_def isUInt6_ucast32 BuildMI_def)
    have imm': "Operands (hd ?adj) ! 2 =
             MO_Immediate (ucast (if unat (FrameSize MF) \<le> 63
                                  then FrameSize MF else - FrameSize MF))"
      using imm by (simp add: amt_def isUInt6_ucast32)
    from run split adj imm' False show ?thesis
      unfolding is1_def by (intro exI [of _ "take p is1"] exI [of _ "drop p is1"] exI [of _ ?adj])
        (simp add: is1_def)
  qed
qed

lemma FrameSize_uint:
  "uint (FrameSize MF) =
     (uint (StackSize (FrameInfo MF)) - uint (CalleeSavedFrameSize (Info MF))) mod 2 ^ 32"
proof -
  have c: "uint (ucast (CalleeSavedFrameSize (Info MF)) :: 64 word) =
             uint (CalleeSavedFrameSize (Info MF))"
    by (simp add: uint_up_ucast is_up)
  have "uint (FrameSize MF) =
          uint (StackSize (FrameInfo MF) - ucast (CalleeSavedFrameSize (Info MF))) mod 2 ^ 32"
    by (simp add: FrameSize_def unsigned_ucast_eq take_bit_eq_mod)
  also have "\<dots> = ((uint (StackSize (FrameInfo MF)) - uint (CalleeSavedFrameSize (Info MF)))
                    mod 2 ^ 64) mod 2 ^ 32"
    by (simp add: uint_word_ariths c)
  also have "\<dots> = (uint (StackSize (FrameInfo MF)) - uint (CalleeSavedFrameSize (Info MF)))
                    mod 2 ^ 32"
    by (simp add: mod_mod_cancel)
  finally show ?thesis .
qed

lemma FrameSize_frameMF: "FrameSize (frameMF CC sz is) = ucast sz"
  by (simp add: FrameSize_def frameMF_def emptyFrameInfo_def emptyInfo_def)

lemma anySizedObject_iff: "anySizedObject obs = (\<exists>ob \<in> set obs. Size ob \<noteq> 0)"
  by (induction obs) auto

lemma scanOperands_iff:
  "scanOperands MFI ops = (\<exists>idx. MO_FrameIndex idx \<in> set ops \<and> isFixedObjectIndex MFI idx)"
  by (induction ops) (auto split: machine_operand.splits)

lemma scanInstrs_Cons:
  "scanInstrs MFI (MI # is) =
     (Opcode MI \<in> {LDDRdPtrQ, LDDWRdPtrQ, STDPtrQRr, STDWPtrQRr} \<and>
        scanOperands MFI (Operands MI) \<or> scanInstrs MFI is)"
  by auto

lemma scanInstrs_iff:
  "scanInstrs MFI is =
     (\<exists>MI \<in> set is. Opcode MI \<in> {LDDRdPtrQ, LDDWRdPtrQ, STDPtrQRr, STDWPtrQRr} \<and>
        scanOperands MFI (Operands MI))"
proof (induction "is")
  case Nil
  show ?case by simp
next
  case (Cons MI "is")
  show ?case
    unfolding scanInstrs_Cons Cons.IH by simp
qed

lemma scanBlocks_iff':
  "scanBlocks MFI bbs = (\<exists>BB \<in> set bbs. scanInstrs MFI (Instrs BB))"
  by (induction bbs) simp_all

lemma scanBlocks_iff:
  "scanBlocks MFI bbs =
     (\<exists>BB \<in> set bbs. \<exists>MI \<in> set (Instrs BB).
        Opcode MI \<in> {LDDRdPtrQ, LDDWRdPtrQ, STDPtrQRr, STDWPtrQRr} \<and>
        (\<exists>idx. MO_FrameIndex idx \<in> set (Operands MI) \<and> isFixedObjectIndex MFI idx))"
  unfolding scanBlocks_iff' scanInstrs_iff scanOperands_iff ..

lemma no_fixed_index: "FixedObjects MFI = [] \<Longrightarrow> \<not> isFixedObjectIndex MFI idx"
  by (simp add: isFixedObjectIndex_def getNumFixedObjects_def)

lemma spec_storeAsPushes_other:
  "Opcode I \<noteq> STDSPQRr \<Longrightarrow> Opcode I \<noteq> STDWSPQRr \<Longrightarrow> spec_storeAsPushes TII TRI I = [I]"
  by (simp add: spec_storeAsPushes_def split: machine_operand.splits)

lemma fixStackStoresLoop_store:
  assumes "\<not> isCall (get TII (Opcode I))"
    and "Opcode I = STDSPQRr \<or> Opcode I = STDWSPQRr"
    and "wellFormedStore I"
    and "fixStackStoresLoop TII TRI True rest = Inr rest'"
  shows "fixStackStoresLoop TII TRI True (I # rest) = Inr (spec_storeAsPushes TII TRI I @ rest')"
proof -
  from assms(3) obtain st0 Src st2 where
    ops: "2 < length (Operands I)" "Operands I ! 0 = MO_Register SP st0"
      "Operands I ! 2 = MO_Register Src st2"
    by (auto simp add: wellFormedStore_def split: machine_operand.splits)
  have r0: "getRegOperand I 0 = Inr (SP, st0)"
    using ops by (auto simp add: getRegOperand_def)
  have r2: "getRegOperand I 2 = Inr (Src, st2)"
    using ops by (simp add: getRegOperand_def)
  from assms(2) show ?thesis
  proof
    assume "Opcode I = STDSPQRr"
    then show ?thesis
      using assms(1,4) r0 r2 ops by (simp add: spec_storeAsPushes_def Let_def)
  next
    assume "Opcode I = STDWSPQRr"
    then show ?thesis
      using assms(1,4) r0 r2 ops by (simp add: spec_storeAsPushes_def Let_def)
  qed
qed

lemma fixStackStoresLoop_pushes:
  assumes "\<forall>I \<in> set mid. \<not> isCall (get TII (Opcode I))"
    and "\<forall>I \<in> set mid. Opcode I = STDSPQRr \<or> Opcode I = STDWSPQRr \<longrightarrow> wellFormedStore I"
    and "rest = [] \<or> isCall (get TII (Opcode (hd rest)))"
  shows "fixStackStoresLoop TII TRI True (mid @ rest) =
           Inr (concat (map (spec_storeAsPushes TII TRI) mid) @ rest)"
  using assms(1,2)
proof (induction mid)
  case Nil
  from assms(3) show ?case
    by (cases rest) simp_all
next
  case (Cons I mid)
  from Cons.prems have nc: "\<not> isCall (get TII (Opcode I))"
    and wf: "Opcode I = STDSPQRr \<or> Opcode I = STDWSPQRr \<longrightarrow> wellFormedStore I"
    and tl1: "\<forall>I \<in> set mid. \<not> isCall (get TII (Opcode I))"
    and tl2: "\<forall>I \<in> set mid. Opcode I = STDSPQRr \<or> Opcode I = STDWSPQRr \<longrightarrow> wellFormedStore I"
    by simp_all
  note IH = Cons.IH [OF tl1 tl2]
  show ?case
  proof (cases "Opcode I = STDSPQRr \<or> Opcode I = STDWSPQRr")
    case True
    with wf have "wellFormedStore I" by simp
    from fixStackStoresLoop_store [OF nc True this IH]
    show ?thesis by simp
  next
    case False
    then have "spec_storeAsPushes TII TRI I = [I]"
      by (simp add: spec_storeAsPushes_other)
    with False nc IH show ?thesis by simp
  qed
qed

lemma lastNonDebug_snoc:
  "Opcode I \<noteq> DBG_VALUE \<Longrightarrow> lastNonDebug (xs @ [I]) = Some (length xs)"
  by (induction xs) simp_all

lemma getLastNonDebugInstr_snoc:
  "Opcode I \<noteq> DBG_VALUE \<Longrightarrow> getLastNonDebugInstr (xs @ [I]) = length xs"
  by (simp add: getLastNonDebugInstr_def lastNonDebug_snoc)

lemma restoreSP_spec:
  assumes dbg: "\<not> isReturn (get TII DBG_VALUE)"
  shows "restoreSP TII r BB = Inr (spec_guardedBlock TII r False BB)"
proof (cases "Instrs BB \<noteq> [] \<and> isReturn (get TII (Opcode (last (Instrs BB))))")
  case False
  then show ?thesis
    by (auto simp add: restoreSP_def spec_guardedBlock_def)
next
  case True
  then obtain xs I where split: "Instrs BB = xs @ [I]"
    by (metis append_butlast_last_id)
  with True have ret: "isReturn (get TII (Opcode I))"
    by simp
  with dbg have nd: "Opcode I \<noteq> DBG_VALUE"
    by auto
  show ?thesis
    using ret by (simp add: restoreSP_def spec_guardedBlock_def split
          getLastNonDebugInstr_snoc [OF nd] insertBefore_def Let_def)
qed

lemma restoreSPLoop_spec:
  assumes "\<not> isReturn (get TII DBG_VALUE)"
  shows "restoreSPLoop TII r bbs = Inr (map (spec_guardedBlock TII r False) bbs)"
  by (induction bbs) (simp_all add: restoreSP_spec [OF assms])

lemma guarded_entry:
  assumes "\<not> isReturn (get TII COPY)"
  shows "spec_guardedBlock TII r False
           (E\<lparr>Instrs := BuildMI TII COPY [defReg r, useReg SP False] False # Instrs E\<rparr>) =
         spec_guardedBlock TII r True E"
  using assms by (cases "Instrs E = []") (simp_all add: spec_guardedBlock_def BuildMI_def)

subsection \<open>Frame policy\<close>

text \<open>
  C1. \<open>hasFP\<close> holds exactly when one of the flags \<open>HasSpills\<close>, \<open>HasAllocas\<close>,
  \<open>HasStackArgs\<close> is set. When all three are unset, \<open>hasFP\<close> is false and the
  prologue only puts the handler-convention instructions in front of the block
  (the interrupt enable for an interrupt handler, the three saves for both handler
  conventions, nothing otherwise): no instruction reads the stack pointer into the
  frame pointer.
\<close>

theorem hasFP_flags_and_prologue:
  "hasFP MF = (HasSpills (Info MF) \<or> HasAllocas (Info MF) \<or> HasStackArgs (Info MF)) \<and>
   (\<not> HasSpills (Info MF) \<and> \<not> HasAllocas (Info MF) \<and> \<not> HasStackArgs (Info MF) \<longrightarrow>
      \<not> hasFP MF \<and>
      (\<exists>P. emitPrologue TII MF b = Inr (setInstrs MF b (P @ Instrs (Blocks MF ! b))) \<and>
           map Opcode P =
             (if CallConv MF = AVR_INTR then [BSETs] else []) @
             (if CallConv MF = AVR_INTR \<or> CallConv MF = AVR_SIGNAL
              then [PUSHWRr, INRdA, PUSHRr] else []) \<and>
           SPREAD \<notin> Opcode ` set P))"
proof -
  have flags: "hasFP MF = (HasSpills (Info MF) \<or> HasAllocas (Info MF) \<or> HasStackArgs (Info MF))"
    by (simp add: hasFP_def)
  have prologue:
    "\<exists>P. emitPrologue TII MF b = Inr (setInstrs MF b (P @ Instrs (Blocks MF ! b))) \<and>
         map Opcode P =
           (if CallConv MF = AVR_INTR then [BSETs] else []) @
           (if CallConv MF = AVR_INTR \<or> CallConv MF = AVR_SIGNAL
            then [PUSHWRr, INRdA, PUSHRr] else []) \<and>
         SPREAD \<notin> Opcode ` set P"
    if nofp: "\<not> hasFP MF"
  proof (cases "CallConv MF = AVR_INTR")
    case True
    with nofp show ?thesis
      by (intro exI [of _ "[BuildMI TII BSETs [MO_Immediate 0x07] True,
                BuildMI TII PUSHWRr [useReg R1R0 True] True,
                BuildMI TII INRdA [defReg R0, MO_Immediate 0x3f] True,
                BuildMI TII PUSHRr [useReg R0 True] True]"])
         (simp add: emitPrologue_def BuildMI_def insertBefore_def)
  next
    case notintr: False
    show ?thesis
    proof (cases "CallConv MF = AVR_SIGNAL")
      case True
      with nofp notintr show ?thesis
        by (intro exI [of _ "[BuildMI TII PUSHWRr [useReg R1R0 True] True,
                BuildMI TII INRdA [defReg R0, MO_Immediate 0x3f] True,
                BuildMI TII PUSHRr [useReg R0 True] True]"])
           (simp add: emitPrologue_def BuildMI_def insertBefore_def)
    next
      case False
      with nofp notintr show ?thesis
        by (intro exI [of _ "[]"]) (simp add: emitPrologue_def insertBefore_def)
    qed
  qed
  from flags prologue show ?thesis by blast
qed

theorem hasFP_flags_and_prologue_witness:
  "\<not> hasFP (mkFunction AVR_INTR [[mkInstr RET []]]) \<and>
   (\<exists>P. emitPrologue sampleTII (mkFunction AVR_INTR [[mkInstr RET []]]) 0 =
          Inr (setInstrs (mkFunction AVR_INTR [[mkInstr RET []]]) 0 (P @ [mkInstr RET []])) \<and>
        map Opcode P = [BSETs, PUSHWRr, INRdA, PUSHRr])"
  using hasFP_flags_and_prologue [of "mkFunction AVR_INTR [[mkInstr RET []]]" sampleTII 0]
  by (auto simp add: mkFunction_def emptyInfo_def)

text \<open>
  C2. \<open>hasReservedCallFrame\<close> holds exactly when \<open>hasFP\<close> holds, the function has no
  variable-sized stack object and the maximum call-frame size is at most 63; so it
  is false whenever a variable-sized object exists.
\<close>

theorem hasReservedCallFrame_iff:
  "hasReservedCallFrame MF =
     (hasFP MF \<and> \<not> HasVarSizedObjects (FrameInfo MF)
      \<and> unat (MaxCallFrameSize (FrameInfo MF)) \<le> 63) \<and>
   (HasVarSizedObjects (FrameInfo MF) \<longrightarrow> \<not> hasReservedCallFrame MF)"
  by (simp add: hasReservedCallFrame_def isUInt6_ucast32)

theorem hasReservedCallFrame_iff_witness:
  "\<not> hasReservedCallFrame
       ((mkFunction (OtherCC 0) [])
          \<lparr>FrameInfo := emptyFrameInfo\<lparr>HasVarSizedObjects := True\<rparr>,
           Info := emptyInfo\<lparr>HasSpills := True\<rparr>\<rparr>) \<and>
   hasFP ((mkFunction (OtherCC 0) [])
          \<lparr>FrameInfo := emptyFrameInfo\<lparr>HasVarSizedObjects := True\<rparr>,
           Info := emptyInfo\<lparr>HasSpills := True\<rparr>\<rparr>)"
  using hasReservedCallFrame_iff [of "(mkFunction (OtherCC 0) [])
          \<lparr>FrameInfo := emptyFrameInfo\<lparr>HasVarSizedObjects := True\<rparr>,
           Info := emptyInfo\<lparr>HasSpills := True\<rparr>\<rparr>"]
  by (simp add: hasFP_def emptyInfo_def)

subsection \<open>Callee-saved registers\<close>

text \<open>
  C3. For a callee-saved list \<open>[r1, .., rn]\<close> of one-byte registers (with \<open>n\<close> in the
  range of the 32-bit loop counter), the spiller puts single-byte pushes of
  \<open>rn, .., r1\<close>, in this order, before the iterator and records
  \<open>CalleeSavedFrameSize = n\<close>; the restorer puts single-byte pops of \<open>r1, .., rn\<close>
  there, the reverse order. For the empty list both emit nothing and return false.
\<close>

theorem callee_saved_symmetry:
  assumes small: "length CSI < 2 ^ 32"
    and bytes: "\<forall>c \<in> set CSI. RegSize TRI (getReg c) = 1"
  shows
    "(CSI \<noteq> [] \<longrightarrow>
        (\<exists>pushes L.
           spillCalleeSavedRegisters TII TRI MF b MI CSI =
             Inr (True,
               MF\<lparr>Blocks := (Blocks MF)[b := (Blocks MF ! b)
                      \<lparr>Instrs := take MI (Instrs (Blocks MF ! b)) @ pushes @
                                 drop MI (Instrs (Blocks MF ! b)),
                       LiveIns := L\<rparr>],
                  Info := (Info MF)\<lparr>CalleeSavedFrameSize := word_of_nat (length CSI)\<rparr>\<rparr>) \<and>
           list_all2 (\<lambda>I c. \<exists>k. I = BuildMI TII PUSHRr [useReg (getReg c) k] True)
             pushes (rev CSI) \<and>
           unat (word_of_nat (length CSI) :: 32 word) = length CSI) \<and>
        restoreCalleeSavedRegisters TII TRI MF b MI CSI =
          Inr (True,
            setInstrs MF b
              (take MI (Instrs (Blocks MF ! b)) @
               map (\<lambda>c. BuildMI TII POPRd [defReg (getReg c)] False) CSI @
               drop MI (Instrs (Blocks MF ! b))))) \<and>
     (CSI = [] \<longrightarrow>
        spillCalleeSavedRegisters TII TRI MF b MI CSI = Inr (False, MF) \<and>
        restoreCalleeSavedRegisters TII TRI MF b MI CSI = Inr (False, MF))"
proof -
  have cnt: "csiCount CSI = length CSI"
    using small by (rule csiCount_small)
  have regs: "\<forall>r \<in> set (map getReg (rev CSI)). RegSize TRI r = 1"
    using bytes by simp
  from spillLoop_ok [OF regs, of TII "LiveIns (Blocks MF ! b)" 0]
  obtain ps L where
    loop: "spillLoop TII TRI (map getReg (rev CSI)) (LiveIns (Blocks MF ! b)) 0 =
             Inr (ps, L, word_of_nat (length CSI))"
    and ps: "list_all2 (\<lambda>I r. \<exists>k. I = BuildMI TII PUSHRr [useReg r k] True)
               ps (map getReg (rev CSI))"
    by auto
  have ps': "list_all2 (\<lambda>I c. \<exists>k. I = BuildMI TII PUSHRr [useReg (getReg c) k] True)
               ps (rev CSI)"
    using ps by (simp add: list_all2_map2)
  have spill: "spillCalleeSavedRegisters TII TRI MF b MI CSI =
      Inr (True,
        MF\<lparr>Blocks := (Blocks MF)[b := (Blocks MF ! b)
               \<lparr>Instrs := take MI (Instrs (Blocks MF ! b)) @ ps @
                          drop MI (Instrs (Blocks MF ! b)),
                LiveIns := L\<rparr>],
           Info := (Info MF)\<lparr>CalleeSavedFrameSize := word_of_nat (length CSI)\<rparr>\<rparr>)"
    if "CSI \<noteq> []"
    using that loop cnt by (simp add: spillCalleeSavedRegisters_def insertBefore_def Let_def)
  have n: "unat (word_of_nat (length CSI) :: 32 word) = length CSI"
    using small by (simp add: unat_of_nat)
  have regs2: "\<forall>r \<in> set (map getReg CSI). RegSize TRI r = 1"
    using bytes by simp
  have restore: "restoreCalleeSavedRegisters TII TRI MF b MI CSI =
      Inr (True,
        setInstrs MF b
          (take MI (Instrs (Blocks MF ! b)) @
           map (\<lambda>c. BuildMI TII POPRd [defReg (getReg c)] False) CSI @
           drop MI (Instrs (Blocks MF ! b))))"
    if "CSI \<noteq> []"
    using that cnt restoreLoop_ok [OF regs2, of TII]
    by (simp add: restoreCalleeSavedRegisters_def insertBefore_def comp_def)
  have empty: "spillCalleeSavedRegisters TII TRI MF b MI [] = Inr (False, MF)"
    "restoreCalleeSavedRegisters TII TRI MF b MI [] = Inr (False, MF)"
    by (simp_all add: spillCalleeSavedRegisters_def restoreCalleeSavedRegisters_def)
  from spill ps' n restore empty show ?thesis by blast
qed

theorem callee_saved_symmetry_witness:
  "(\<exists>pushes L.
      spillCalleeSavedRegisters sampleTII sampleTRI (mkFunction (OtherCC 0) [[mkInstr RET []]]) 0 0
          sampleCSI =
        Inr (True,
          (mkFunction (OtherCC 0) [[mkInstr RET []]])
            \<lparr>Blocks := [\<lparr>Instrs = pushes @ [mkInstr RET []], LiveIns = L\<rparr>],
             Info := emptyInfo\<lparr>CalleeSavedFrameSize := 2\<rparr>\<rparr>) \<and>
      list_all2 (\<lambda>I c. \<exists>k. I = BuildMI sampleTII PUSHRr [useReg (getReg c) k] True)
        pushes (rev sampleCSI)) \<and>
   restoreCalleeSavedRegisters sampleTII sampleTRI (mkFunction (OtherCC 0) [[mkInstr RET []]]) 0 0
       sampleCSI =
     Inr (True,
       setInstrs (mkFunction (OtherCC 0) [[mkInstr RET []]]) 0
         [BuildMI sampleTII POPRd [defReg (PhysReg 2)] False,
          BuildMI sampleTII POPRd [defReg (PhysReg 3)] False,
          mkInstr RET []])"
proof -
  have small: "length sampleCSI < 2 ^ 32"
    by (simp add: sampleCSI_def)
  have bytes: "\<forall>c \<in> set sampleCSI. RegSize sampleTRI (getReg c) = 1"
    by (simp add: sampleCSI_def sampleTRI_def)
  have ne: "sampleCSI \<noteq> []"
    by (simp add: sampleCSI_def)
  from callee_saved_symmetry [OF small bytes, of sampleTII
         "mkFunction (OtherCC 0) [[mkInstr RET []]]" 0 0] ne
  have "(\<exists>pushes L.
           spillCalleeSavedRegisters sampleTII sampleTRI (mkFunction (OtherCC 0) [[mkInstr RET []]]) 0 0
               sampleCSI =
             Inr (True,
               (mkFunction (OtherCC 0) [[mkInstr RET []]])
                 \<lparr>Blocks := (Blocks (mkFunction (OtherCC 0) [[mkInstr RET []]]))[0 :=
                      (Blocks (mkFunction (OtherCC 0) [[mkInstr RET []]]) ! 0)
                      \<lparr>Instrs := take 0 (Instrs (Blocks (mkFunction (OtherCC 0) [[mkInstr RET []]]) ! 0)) @ pushes @
                                 drop 0 (Instrs (Blocks (mkFunction (OtherCC 0) [[mkInstr RET []]]) ! 0)),
                       LiveIns := L\<rparr>],
                  Info := (Info (mkFunction (OtherCC 0) [[mkInstr RET []]]))
                    \<lparr>CalleeSavedFrameSize := word_of_nat (length sampleCSI)\<rparr>\<rparr>) \<and>
           list_all2 (\<lambda>I c. \<exists>k. I = BuildMI sampleTII PUSHRr [useReg (getReg c) k] True)
             pushes (rev sampleCSI) \<and>
           unat (word_of_nat (length sampleCSI) :: 32 word) = length sampleCSI) \<and>
        restoreCalleeSavedRegisters sampleTII sampleTRI (mkFunction (OtherCC 0) [[mkInstr RET []]]) 0 0
            sampleCSI =
          Inr (True,
            setInstrs (mkFunction (OtherCC 0) [[mkInstr RET []]]) 0
              (take 0 (Instrs (Blocks (mkFunction (OtherCC 0) [[mkInstr RET []]]) ! 0)) @
               map (\<lambda>c. BuildMI sampleTII POPRd [defReg (getReg c)] False) sampleCSI @
               drop 0 (Instrs (Blocks (mkFunction (OtherCC 0) [[mkInstr RET []]]) ! 0))))"
    by blast
  then show ?thesis
    by (simp add: mkFunction_def sampleCSI_def)
qed

text \<open>
  C10. With an empty callee-saved list the spiller returns false and leaves the
  function as it was: \<open>CalleeSavedFrameSize\<close> keeps the value \<open>v\<close> it had, so that
  afterwards it is the number of bytes pushed (zero) only if it was zero before.
\<close>

theorem spill_empty_keeps_size:
  "spillCalleeSavedRegisters TII TRI MF b MI [] = Inr (False, MF) \<and>
   (case spillCalleeSavedRegisters TII TRI
           (MF\<lparr>Info := (Info MF)\<lparr>CalleeSavedFrameSize := v\<rparr>\<rparr>) b MI [] of
      Inl e \<Rightarrow> False
    | Inr (emitted, MF') \<Rightarrow> \<not> emitted \<and> CalleeSavedFrameSize (Info MF') = v) \<and>
   (case spillCalleeSavedRegisters TII TRI
           (MF\<lparr>Info := (Info MF)\<lparr>CalleeSavedFrameSize := v\<rparr>\<rparr>) b MI [] of
      Inl e \<Rightarrow> False
    | Inr (emitted, MF') \<Rightarrow> (CalleeSavedFrameSize (Info MF') = 0) = (v = 0))"
  by (simp add: spillCalleeSavedRegisters_def)

theorem spill_empty_keeps_size_witness:
  "spillCalleeSavedRegisters sampleTII sampleTRI
      ((mkFunction (OtherCC 0) [[mkInstr RET []]])\<lparr>Info := emptyInfo\<lparr>CalleeSavedFrameSize := 5\<rparr>\<rparr>)
      0 0 [] =
    Inr (False,
      (mkFunction (OtherCC 0) [[mkInstr RET []]])\<lparr>Info := emptyInfo\<lparr>CalleeSavedFrameSize := 5\<rparr>\<rparr>)"
  using spill_empty_keeps_size [of sampleTII sampleTRI
      "(mkFunction (OtherCC 0) [[mkInstr RET []]])\<lparr>Info := emptyInfo\<lparr>CalleeSavedFrameSize := 5\<rparr>\<rparr>"
      0 0 5]
  by simp

subsection \<open>Prologue and epilogue\<close>

text \<open>
  C4. In the prologue and in the epilogue \<open>FrameSize\<close> is the total stack size minus
  \<open>CalleeSavedFrameSize\<close> (in 32-bit unsigned arithmetic), and it selects the stack
  adjustment that follows the frame-pointer materialization (prologue) or precedes
  the return (epilogue): none when it is 0; the short-immediate form when it is at
  most 63 (\<open>SBIWRdK\<close> in the prologue, \<open>ADIWRdK\<close> in the epilogue) with \<open>FrameSize\<close> as
  immediate; the general form \<open>SUBIWRdK\<close> from 64 on, with \<open>FrameSize\<close> as immediate
  in the prologue and its negation in the epilogue. Each adjustment is followed by
  the write-back \<open>SPWRITE\<close>. The instruction table is assumed to give the three
  arithmetic opcodes an implicit definition (the status register the source marks
  dead).
\<close>

theorem frame_adjustment_selection:
  assumes b: "b < length (Blocks MF)"
    and tbl: "\<forall>opc \<in> {SBIWRdK, ADIWRdK, SUBIWRdK}. ImplicitDefs (get TII opc) \<noteq> []"
  shows
    "uint (FrameSize MF) =
       (uint (StackSize (FrameInfo MF)) - uint (CalleeSavedFrameSize (Info MF))) mod 2 ^ 32 \<and>
     (hasFP MF \<longrightarrow>
        (\<exists>MF' adj.
           emitPrologue TII MF b = Inr MF' \<and>
           Instrs (Blocks MF' ! b) =
             handlerPrologue TII (CallConv MF) @
             take (skipPushes (Instrs (Blocks MF ! b))) (Instrs (Blocks MF ! b)) @
             BuildMI TII SPREAD [defReg R29R28, useReg SP False] True # adj @
             drop (skipPushes (Instrs (Blocks MF ! b))) (Instrs (Blocks MF ! b)) \<and>
           (FrameSize MF = 0 \<longrightarrow> adj = []) \<and>
           (FrameSize MF \<noteq> 0 \<and> unat (FrameSize MF) \<le> 63 \<longrightarrow>
              map Opcode adj = [SBIWRdK, SPWRITE] \<and>
              Operands (hd adj) ! 2 = MO_Immediate (ucast (FrameSize MF))) \<and>
           (64 \<le> unat (FrameSize MF) \<longrightarrow>
              map Opcode adj = [SUBIWRdK, SPWRITE] \<and>
              Operands (hd adj) ! 2 = MO_Immediate (ucast (FrameSize MF))))) \<and>
     ((hasFP MF \<or> CallConv MF = AVR_INTR \<or> CallConv MF = AVR_SIGNAL) \<and>
      getLastNonDebugInstr (Instrs (Blocks MF ! b)) < length (Instrs (Blocks MF ! b)) \<and>
      isReturn (get TII (Opcode (Instrs (Blocks MF ! b) !
                  getLastNonDebugInstr (Instrs (Blocks MF ! b))))) \<longrightarrow>
        (\<exists>pre post adj.
           emitEpilogue TII MF b = Inr (setInstrs MF b (pre @ adj @ post)) \<and>
           pre @ post =
             take (getLastNonDebugInstr (Instrs (Blocks MF ! b))) (Instrs (Blocks MF ! b)) @
             handlerEpilogue TII (CallConv MF) @
             drop (getLastNonDebugInstr (Instrs (Blocks MF ! b))) (Instrs (Blocks MF ! b)) \<and>
           (FrameSize MF = 0 \<longrightarrow> adj = []) \<and>
           (FrameSize MF \<noteq> 0 \<and> unat (FrameSize MF) \<le> 63 \<longrightarrow>
              map Opcode adj = [ADIWRdK, SPWRITE] \<and>
              Operands (hd adj) ! 2 = MO_Immediate (ucast (FrameSize MF))) \<and>
           (64 \<le> unat (FrameSize MF) \<longrightarrow>
              map Opcode adj = [SUBIWRdK, SPWRITE] \<and>
              Operands (hd adj) ! 2 = MO_Immediate (ucast (- FrameSize MF)))))"
proof (intro conjI impI)
  show "uint (FrameSize MF) =
       (uint (StackSize (FrameInfo MF)) - uint (CalleeSavedFrameSize (Info MF))) mod 2 ^ 32"
    by (rule FrameSize_uint)
next
  assume fp: "hasFP MF"
  from tbl have t: "ImplicitDefs (get TII SBIWRdK) \<noteq> []" "ImplicitDefs (get TII SUBIWRdK) \<noteq> []"
    by simp_all
  from prologue_adjust [OF b fp t]
  obtain MF' adj where
    run: "emitPrologue TII MF b = Inr MF'"
    and instrs: "Instrs (Blocks MF' ! b) =
       handlerPrologue TII (CallConv MF) @
       take (skipPushes (Instrs (Blocks MF ! b))) (Instrs (Blocks MF ! b)) @
       BuildMI TII SPREAD [defReg R29R28, useReg SP False] True # adj @
       drop (skipPushes (Instrs (Blocks MF ! b))) (Instrs (Blocks MF ! b))"
    and sel: "if FrameSize MF = 0 then adj = []
      else map Opcode adj = [if unat (FrameSize MF) \<le> 63 then SBIWRdK else SUBIWRdK, SPWRITE] \<and>
           Operands (hd adj) ! 2 = MO_Immediate (ucast (FrameSize MF))"
    by blast
  have z: "FrameSize MF = 0 \<longrightarrow> adj = []"
    using sel by simp
  have short: "FrameSize MF \<noteq> 0 \<and> unat (FrameSize MF) \<le> 63 \<longrightarrow>
              map Opcode adj = [SBIWRdK, SPWRITE] \<and>
              Operands (hd adj) ! 2 = MO_Immediate (ucast (FrameSize MF))"
    using sel by simp
  have "64 \<le> unat (FrameSize MF) \<Longrightarrow> FrameSize MF \<noteq> 0"
    by auto
  then have general: "64 \<le> unat (FrameSize MF) \<longrightarrow>
              map Opcode adj = [SUBIWRdK, SPWRITE] \<and>
              Operands (hd adj) ! 2 = MO_Immediate (ucast (FrameSize MF))"
    using sel by auto
  show "\<exists>MF' adj.
           emitPrologue TII MF b = Inr MF' \<and>
           Instrs (Blocks MF' ! b) =
             handlerPrologue TII (CallConv MF) @
             take (skipPushes (Instrs (Blocks MF ! b))) (Instrs (Blocks MF ! b)) @
             BuildMI TII SPREAD [defReg R29R28, useReg SP False] True # adj @
             drop (skipPushes (Instrs (Blocks MF ! b))) (Instrs (Blocks MF ! b)) \<and>
           (FrameSize MF = 0 \<longrightarrow> adj = []) \<and>
           (FrameSize MF \<noteq> 0 \<and> unat (FrameSize MF) \<le> 63 \<longrightarrow>
              map Opcode adj = [SBIWRdK, SPWRITE] \<and>
              Operands (hd adj) ! 2 = MO_Immediate (ucast (FrameSize MF))) \<and>
           (64 \<le> unat (FrameSize MF) \<longrightarrow>
              map Opcode adj = [SUBIWRdK, SPWRITE] \<and>
              Operands (hd adj) ! 2 = MO_Immediate (ucast (FrameSize MF)))"
    using run instrs z short general
    by - (rule exI [of _ MF'], rule exI [of _ adj], intro conjI, assumption+)
next
  assume pre: "(hasFP MF \<or> CallConv MF = AVR_INTR \<or> CallConv MF = AVR_SIGNAL) \<and>
      getLastNonDebugInstr (Instrs (Blocks MF ! b)) < length (Instrs (Blocks MF ! b)) \<and>
      isReturn (get TII (Opcode (Instrs (Blocks MF ! b) !
                  getLastNonDebugInstr (Instrs (Blocks MF ! b)))))"
  from tbl have t: "ImplicitDefs (get TII ADIWRdK) \<noteq> []" "ImplicitDefs (get TII SUBIWRdK) \<noteq> []"
    by simp_all
  from pre have go: "hasFP MF \<or> CallConv MF = AVR_INTR \<or> CallConv MF = AVR_SIGNAL"
    and r: "getLastNonDebugInstr (Instrs (Blocks MF ! b)) < length (Instrs (Blocks MF ! b))"
    and ret: "isReturn (get TII (Opcode (Instrs (Blocks MF ! b) !
                  getLastNonDebugInstr (Instrs (Blocks MF ! b)))))"
    by simp_all
  from epilogue_adjust [OF go r ret t]
  obtain pre post adj where
    run: "emitEpilogue TII MF b = Inr (setInstrs MF b (pre @ adj @ post))"
    and parts: "pre @ post =
       take (getLastNonDebugInstr (Instrs (Blocks MF ! b))) (Instrs (Blocks MF ! b)) @
       handlerEpilogue TII (CallConv MF) @
       drop (getLastNonDebugInstr (Instrs (Blocks MF ! b))) (Instrs (Blocks MF ! b))"
    and sel: "if FrameSize MF = 0 then adj = []
      else map Opcode adj = [if unat (FrameSize MF) \<le> 63 then ADIWRdK else SUBIWRdK, SPWRITE] \<and>
           Operands (hd adj) ! 2 =
             MO_Immediate (ucast (if unat (FrameSize MF) \<le> 63
                                  then FrameSize MF else - FrameSize MF))"
    by blast
  have z: "FrameSize MF = 0 \<longrightarrow> adj = []"
    using sel by simp
  have short: "FrameSize MF \<noteq> 0 \<and> unat (FrameSize MF) \<le> 63 \<longrightarrow>
              map Opcode adj = [ADIWRdK, SPWRITE] \<and>
              Operands (hd adj) ! 2 = MO_Immediate (ucast (FrameSize MF))"
    using sel by simp
  have "64 \<le> unat (FrameSize MF) \<Longrightarrow> FrameSize MF \<noteq> 0"
    by auto
  then have general: "64 \<le> unat (FrameSize MF) \<longrightarrow>
              map Opcode adj = [SUBIWRdK, SPWRITE] \<and>
              Operands (hd adj) ! 2 = MO_Immediate (ucast (- FrameSize MF))"
    using sel by auto
  show "\<exists>pre post adj.
           emitEpilogue TII MF b = Inr (setInstrs MF b (pre @ adj @ post)) \<and>
           pre @ post =
             take (getLastNonDebugInstr (Instrs (Blocks MF ! b))) (Instrs (Blocks MF ! b)) @
             handlerEpilogue TII (CallConv MF) @
             drop (getLastNonDebugInstr (Instrs (Blocks MF ! b))) (Instrs (Blocks MF ! b)) \<and>
           (FrameSize MF = 0 \<longrightarrow> adj = []) \<and>
           (FrameSize MF \<noteq> 0 \<and> unat (FrameSize MF) \<le> 63 \<longrightarrow>
              map Opcode adj = [ADIWRdK, SPWRITE] \<and>
              Operands (hd adj) ! 2 = MO_Immediate (ucast (FrameSize MF))) \<and>
           (64 \<le> unat (FrameSize MF) \<longrightarrow>
              map Opcode adj = [SUBIWRdK, SPWRITE] \<and>
              Operands (hd adj) ! 2 = MO_Immediate (ucast (- FrameSize MF)))"
    using run parts z short general
    by - (rule exI [of _ pre], rule exI [of _ post], rule exI [of _ adj], intro conjI,
          assumption+)
qed

theorem frame_adjustment_selection_witness:
  "(\<exists>MF' adj.
      emitPrologue sampleTII (frameMF (OtherCC 0) 64 [mkInstr RET []]) 0 = Inr MF' \<and>
      Instrs (Blocks MF' ! 0) =
        BuildMI sampleTII SPREAD [defReg R29R28, useReg SP False] True # adj @ [mkInstr RET []] \<and>
      map Opcode adj = [SUBIWRdK, SPWRITE] \<and>
      Operands (hd adj) ! 2 = MO_Immediate 64) \<and>
   (\<exists>pre post adj.
      emitEpilogue sampleTII (frameMF (OtherCC 0) 64 [mkInstr RET []]) 0 =
        Inr (setInstrs (frameMF (OtherCC 0) 64 [mkInstr RET []]) 0 (pre @ adj @ post)) \<and>
      pre @ post = [mkInstr RET []] \<and>
      map Opcode adj = [SUBIWRdK, SPWRITE] \<and>
      Operands (hd adj) ! 2 = MO_Immediate 0xFFFFFFC0)"
proof -
  define MF0 where "MF0 = frameMF (OtherCC 0) 64 [mkInstr RET []]"
  have b: "0 < length (Blocks MF0)"
    by (simp add: MF0_def frameMF_def mkFunction_def)
  have tbl: "\<forall>opc \<in> {SBIWRdK, ADIWRdK, SUBIWRdK}. ImplicitDefs (get sampleTII opc) \<noteq> []"
    by (simp add: sampleTII_def)
  have fs: "FrameSize MF0 = 64"
    by (simp add: MF0_def FrameSize_frameMF)
  have instrs: "Instrs (Blocks MF0 ! 0) = [mkInstr RET []]"
    by (simp add: MF0_def frameMF_def mkFunction_def)
  have fp: "hasFP MF0"
    by (simp add: MF0_def hasFP_def frameMF_def emptyInfo_def)
  have cc: "CallConv MF0 = OtherCC 0"
    by (simp add: MF0_def frameMF_def mkFunction_def)
  have ret: "getLastNonDebugInstr [mkInstr RET []] = 0"
    "isReturn (get sampleTII (Opcode (mkInstr RET [])))"
    by (simp_all add: getLastNonDebugInstr_def mkInstr_def RET_def sampleTII_def)
  have neg: "ucast (- 64 :: 32 word) = (0xFFFFFFC0 :: 64 word)"
    by simp
  from frame_adjustment_selection [OF b tbl]
  show ?thesis
    unfolding MF0_def [symmetric]
    by (simp add: fs instrs fp cc neg handlerPrologue_def handlerEpilogue_def mkInstr_def RET_def
          getLastNonDebugInstr_def sampleTII_def)
qed

lemma handler_prologue_without_fp:
  "\<not> hasFP MF \<Longrightarrow>
   emitPrologue TII MF b =
     Inr (setInstrs MF b (handlerPrologue TII (CallConv MF) @ Instrs (Blocks MF ! b)))"
  by (simp add: emitPrologue_unfold Let_def)

lemma handler_epilogue_zero_frame:
  assumes "CallConv MF = AVR_INTR \<or> CallConv MF = AVR_SIGNAL"
    and "getLastNonDebugInstr (Instrs (Blocks MF ! b)) < length (Instrs (Blocks MF ! b))"
    and "isReturn (get TII (Opcode (Instrs (Blocks MF ! b) !
           getLastNonDebugInstr (Instrs (Blocks MF ! b)))))"
    and "FrameSize MF = 0"
  shows "emitEpilogue TII MF b =
     Inr (setInstrs MF b
       (take (getLastNonDebugInstr (Instrs (Blocks MF ! b))) (Instrs (Blocks MF ! b)) @
        handlerEpilogue TII (CallConv MF) @
        drop (getLastNonDebugInstr (Instrs (Blocks MF ! b))) (Instrs (Blocks MF ! b))))"
proof -
  from assms(1) have go: "hasFP MF \<or> CallConv MF = AVR_INTR \<or> CallConv MF = AVR_SIGNAL"
    by blast
  show ?thesis
    using assms(4) by (simp add: emitEpilogue_unfold [OF go assms(2,3)] Let_def)
qed

text \<open>
  C5. For a handler the prologue puts the interrupt enable (interrupt handlers
  only), the push of the zero-register pair, the status read and the push of the
  scratch register in front of all other code (the two lemmas above give this, and
  the restore sequence before the return when the frame size is zero). When the
  frame size is not zero the epilogue does not leave the restore sequence before
  the return: the backward scan starts at the return, steps over the pop of the
  zero-register pair it has just inserted and stops at the status write, so the
  frame-pointer adjustment and the stack-pointer write land inside the restore
  sequence. For a signal handler with a frame of 10 bytes and the block \<open>[RET]\<close>:
\<close>

theorem handler_epilogue_restore_split:
  "map_sum id (\<lambda>MF'. map Opcode (Instrs (Blocks MF' ! 0)))
     (emitEpilogue sampleTII (frameMF AVR_SIGNAL 10 [mkInstr RET []]) 0) =
   Inr [POPRd, OUTARr, ADIWRdK, SPWRITE, POPWRd, RET]"
proof -
  define MF0 where "MF0 = frameMF AVR_SIGNAL 10 [mkInstr RET []]"
  have instrs: "Instrs (Blocks MF0 ! 0) = [mkInstr RET []]"
    by (simp add: MF0_def frameMF_def mkFunction_def)
  have cc: "CallConv MF0 = AVR_SIGNAL"
    by (simp add: MF0_def frameMF_def mkFunction_def)
  have fs: "FrameSize MF0 = 10"
    by (simp add: MF0_def FrameSize_frameMF)
  have r0: "getLastNonDebugInstr [mkInstr RET []] = 0"
    by (simp add: getLastNonDebugInstr_def mkInstr_def RET_def)
  have go: "hasFP MF0 \<or> CallConv MF0 = AVR_INTR \<or> CallConv MF0 = AVR_SIGNAL"
    by (simp add: cc)
  have r: "getLastNonDebugInstr (Instrs (Blocks MF0 ! 0)) < length (Instrs (Blocks MF0 ! 0))"
    by (simp add: instrs r0)
  have ret: "isReturn (get sampleTII (Opcode (Instrs (Blocks MF0 ! 0) !
               getLastNonDebugInstr (Instrs (Blocks MF0 ! 0)))))"
    by (simp add: instrs getLastNonDebugInstr_def mkInstr_def RET_def sampleTII_def)
  have len: "length (handlerEpilogue sampleTII AVR_SIGNAL) = Suc (Suc (Suc 0))"
    by (simp add: handlerEpilogue_def)
  have sp: "skipPops sampleTII (handlerEpilogue sampleTII AVR_SIGNAL @ [mkInstr RET []])
              (Suc (Suc (Suc 0))) = 2"
    by (simp add: handlerEpilogue_def BuildMI_def sampleTII_def)
  have short: "isUInt6 10"
    by (simp add: isUInt6_def)
  have dead: "setIsDead 3 (BuildMI sampleTII ADIWRdK
                 [defReg R29R28, useReg R29R28 True, MO_Immediate 10] False) =
              Inr \<lparr>Opcode = ADIWRdK,
                   Operands = [defReg R29R28, useReg R29R28 True, MO_Immediate 10,
                     MO_Register SREG
                       \<lparr>IsDef = True, IsImp = True, IsKill = False, IsDead = True\<rparr>],
                   FrameSetup = False\<rparr>"
    by (simp add: setIsDead_def BuildMI_def implicitOperands_def sampleTII_def)
  have "emitEpilogue sampleTII MF0 0 =
          Inr (setInstrs MF0 0
            (take 2 (handlerEpilogue sampleTII AVR_SIGNAL @ [mkInstr RET []]) @
             [\<lparr>Opcode = ADIWRdK,
                   Operands = [defReg R29R28, useReg R29R28 True, MO_Immediate 10,
                     MO_Register SREG
                       \<lparr>IsDef = True, IsImp = True, IsKill = False, IsDead = True\<rparr>],
                   FrameSetup = False\<rparr>,
              BuildMI sampleTII SPWRITE [defReg SP, useReg R29R28 True] False] @
             drop 2 (handlerEpilogue sampleTII AVR_SIGNAL @ [mkInstr RET []])))"
    by (simp add: emitEpilogue_unfold [OF go r ret] Let_def instrs cc fs r0 len sp short dead
          del: skipPops.simps)
  moreover have "0 < length (Blocks MF0)"
    by (simp add: MF0_def frameMF_def mkFunction_def)
  ultimately show ?thesis
    unfolding MF0_def [symmetric]
    by (simp add: Instrs_setInstrs handlerEpilogue_def BuildMI_def mkInstr_def)
qed

text \<open>
  C8, as stated, fails: the epilogue of a function that has no frame pointer and is
  no handler returns before the check, whatever the block ends with; and with a
  stack alignment of two bytes a marker with a zero amount is eliminated without
  any assertion.
\<close>

theorem epilogue_returns_without_assert:
  "\<not> hasFP (mkFunction (OtherCC 0) [[mkInstr POPRd [defReg R0]]]) \<and>
   getLastNonDebugInstr [mkInstr POPRd [defReg R0]] = 0 \<and>
   \<not> isReturn (get sampleTII (Opcode ([mkInstr POPRd [defReg R0]] ! 0))) \<and>
   emitEpilogue sampleTII (mkFunction (OtherCC 0) [[mkInstr POPRd [defReg R0]]]) 0 =
     Inr (mkFunction (OtherCC 0) [[mkInstr POPRd [defReg R0]]]) \<and>
   StackAlignment (AVRFrameLowering\<lparr>StackAlignment := 2\<rparr>) \<noteq> 1 \<and>
   eliminateCallFramePseudoInstr (AVRFrameLowering\<lparr>StackAlignment := 2\<rparr>) sampleTII sampleTRI
       (mkFunction (OtherCC 0) [[mkInstr ADJCALLSTACKDOWN [MO_Immediate 0], mkInstr RET []]]) 0 0 =
     Inr (mkFunction (OtherCC 0) [[mkInstr RET []]])"
  by (simp add: emitEpilogue_def hasFP_def mkFunction_def emptyInfo_def
        getLastNonDebugInstr_def mkInstr_def sampleTII_def eliminateCallFramePseudoInstr_def
        hasReservedCallFrame_def getImmOperand_def erase_def setInstrs_def Let_def)

text \<open>
  C8, amended. The epilogue asserts that the last non-debug instruction of the
  block is a return only when \<open>hasFP\<close> holds or the function is a handler;
  otherwise it returns at once. Neither emitter reads the stack alignment: the
  assertion on it is in the call-frame pseudo eliminator, reached for a marker
  with a non-zero amount when the call frame is not reserved, and it fails when
  the alignment of the frame lowering is not one byte. The AVR frame lowering is
  constructed with alignment one.
\<close>

theorem epilogue_and_alignment_assertions:
  "(\<not> hasFP MF \<and> CallConv MF \<noteq> AVR_INTR \<and> CallConv MF \<noteq> AVR_SIGNAL \<longrightarrow>
      emitEpilogue TII MF b = Inr MF) \<and>
   ((hasFP MF \<or> CallConv MF = AVR_INTR \<or> CallConv MF = AVR_SIGNAL) \<and>
    getLastNonDebugInstr (Instrs (Blocks MF ! b)) < length (Instrs (Blocks MF ! b)) \<and>
    \<not> isReturn (get TII (Opcode (Instrs (Blocks MF ! b) !
                  getLastNonDebugInstr (Instrs (Blocks MF ! b))))) \<longrightarrow>
      emitEpilogue TII MF b =
        Inl (AssertionFailed ''Can only insert epilog into returning blocks'')) \<and>
   (\<not> hasReservedCallFrame MF \<and>
    getImmOperand (Instrs (Blocks MF ! b) ! MI) 0 = Inr Amount \<and>
    (ucast Amount :: 32 word) \<noteq> 0 \<and>
    StackAlignment TFI \<noteq> 1 \<longrightarrow>
      eliminateCallFramePseudoInstr TFI TII TRI MF b MI =
        Inl (AssertionFailed ''Unsupported stack alignment'')) \<and>
   StackAlignment AVRFrameLowering = 1"
  by (auto simp add: emitEpilogue_def eliminateCallFramePseudoInstr_def AVRFrameLowering_def
        Let_def)

theorem epilogue_and_alignment_assertions_witness:
  "emitEpilogue sampleTII (mkFunction AVR_INTR [[mkInstr POPRd [defReg R0]]]) 0 =
     Inl (AssertionFailed ''Can only insert epilog into returning blocks'') \<and>
   eliminateCallFramePseudoInstr (AVRFrameLowering\<lparr>StackAlignment := 2\<rparr>) sampleTII sampleTRI
       (mkFunction (OtherCC 0) [[mkInstr ADJCALLSTACKDOWN [MO_Immediate 2]]]) 0 0 =
     Inl (AssertionFailed ''Unsupported stack alignment'')"
  using epilogue_and_alignment_assertions [of "mkFunction AVR_INTR [[mkInstr POPRd [defReg R0]]]"
      sampleTII 0 0 2 "AVRFrameLowering\<lparr>StackAlignment := 2\<rparr>" sampleTRI]
    epilogue_and_alignment_assertions [of
      "mkFunction (OtherCC 0) [[mkInstr ADJCALLSTACKDOWN [MO_Immediate 2]]]"
      sampleTII 0 0 2 "AVRFrameLowering\<lparr>StackAlignment := 2\<rparr>" sampleTRI]
  by (simp add: mkFunction_def mkInstr_def getLastNonDebugInstr_def sampleTII_def
        hasReservedCallFrame_def hasFP_def emptyInfo_def getImmOperand_def)

subsection \<open>The frame analyzer\<close>

text \<open>
  C6. The analyzer returns false and changes only the two flags. It sets
  \<open>HasAllocas\<close> exactly when a non-fixed slot has non-zero nominal size (slots of
  size zero never set it), and \<open>HasStackArgs\<close> exactly when an instruction with one
  of the four indexed load/store opcodes has a frame-index operand that names a
  fixed slot; a flag that was set stays set. Without fixed slots \<open>HasStackArgs\<close>
  keeps its value whatever the instruction stream is, and the scan answers at a
  referencing instruction whatever follows it.
\<close>

theorem frame_analyzer_flags:
  "AVRFrameAnalyzer MF =
     (False,
      MF\<lparr>Info := (Info MF)
         \<lparr>HasAllocas := HasAllocas (Info MF) \<or>
            (\<exists>ob \<in> set (Objects (FrameInfo MF)). Size ob \<noteq> 0),
          HasStackArgs := HasStackArgs (Info MF) \<or>
            (\<exists>BB \<in> set (Blocks MF). \<exists>MI \<in> set (Instrs BB).
               Opcode MI \<in> {LDDRdPtrQ, LDDWRdPtrQ, STDPtrQRr, STDWPtrQRr} \<and>
               (\<exists>idx. MO_FrameIndex idx \<in> set (Operands MI) \<and>
                      isFixedObjectIndex (FrameInfo MF) idx))\<rparr>\<rparr>) \<and>
   (FixedObjects (FrameInfo MF) = [] \<longrightarrow>
      (\<forall>bbs. HasStackArgs (Info (snd (AVRFrameAnalyzer (MF\<lparr>Blocks := bbs\<rparr>)))) =
             HasStackArgs (Info MF))) \<and>
   (Opcode MI \<in> {LDDRdPtrQ, LDDWRdPtrQ, STDPtrQRr, STDWPtrQRr} \<and>
    MO_FrameIndex idx \<in> set (Operands MI) \<and> isFixedObjectIndex (FrameInfo MF) idx \<longrightarrow>
      (\<forall>bs pre post L rest.
         scanBlocks (FrameInfo MF) (bs @ \<lparr>Instrs = pre @ MI # post, LiveIns = L\<rparr> # rest)))"
proof (intro conjI impI allI)
  let ?MFI = "FrameInfo MF"
  define A where "A = (\<exists>ob \<in> set (Objects ?MFI). Size ob \<noteq> 0)"
  define S where "S = (\<exists>BB \<in> set (Blocks MF). \<exists>MI \<in> set (Instrs BB).
               Opcode MI \<in> {LDDRdPtrQ, LDDWRdPtrQ, STDPtrQRr, STDWPtrQRr} \<and>
               (\<exists>idx. MO_FrameIndex idx \<in> set (Operands MI) \<and>
                      isFixedObjectIndex ?MFI idx))"
  have alloc: "(getNumObjects ?MFI - getNumFixedObjects ?MFI \<noteq> 0 \<and> anySizedObject (Objects ?MFI))
                 = A"
    by (auto simp add: A_def getNumObjects_def getNumFixedObjects_def anySizedObject_iff)
  have scan: "scanBlocks ?MFI (Blocks MF) = S"
    by (simp add: S_def scanBlocks_iff)
  have nofixed: "\<not> S" if "getNumFixedObjects ?MFI = 0"
    using that by (simp add: S_def isFixedObjectIndex_def)
  have run: "AVRFrameAnalyzer MF =
      (False, MF\<lparr>Info := (if S then (if A then (Info MF)\<lparr>HasAllocas := True\<rparr> else Info MF)
                                      \<lparr>HasStackArgs := True\<rparr>
                           else (if A then (Info MF)\<lparr>HasAllocas := True\<rparr> else Info MF))\<rparr>)"
    using nofixed unfolding AVRFrameAnalyzer_def Let_def alloc scan by auto
  have "AVRFrameAnalyzer MF =
     (False,
      MF\<lparr>Info := (Info MF)
         \<lparr>HasAllocas := HasAllocas (Info MF) \<or> A,
          HasStackArgs := HasStackArgs (Info MF) \<or> S\<rparr>\<rparr>)"
    unfolding run by (cases A; cases S) simp_all
  then show "AVRFrameAnalyzer MF =
     (False,
      MF\<lparr>Info := (Info MF)
         \<lparr>HasAllocas := HasAllocas (Info MF) \<or>
            (\<exists>ob \<in> set (Objects (FrameInfo MF)). Size ob \<noteq> 0),
          HasStackArgs := HasStackArgs (Info MF) \<or>
            (\<exists>BB \<in> set (Blocks MF). \<exists>MI \<in> set (Instrs BB).
               Opcode MI \<in> {LDDRdPtrQ, LDDWRdPtrQ, STDPtrQRr, STDWPtrQRr} \<and>
               (\<exists>idx. MO_FrameIndex idx \<in> set (Operands MI) \<and>
                      isFixedObjectIndex (FrameInfo MF) idx))\<rparr>\<rparr>)"
    unfolding A_def S_def .
next
  fix bbs
  assume "FixedObjects (FrameInfo MF) = []"
  then show "HasStackArgs (Info (snd (AVRFrameAnalyzer (MF\<lparr>Blocks := bbs\<rparr>)))) =
             HasStackArgs (Info MF)"
    by (simp add: AVRFrameAnalyzer_def Let_def getNumFixedObjects_def)
next
  fix bs pre post L rest
  assume "Opcode MI \<in> {LDDRdPtrQ, LDDWRdPtrQ, STDPtrQRr, STDWPtrQRr} \<and>
    MO_FrameIndex idx \<in> set (Operands MI) \<and> isFixedObjectIndex (FrameInfo MF) idx"
  then show "scanBlocks (FrameInfo MF) (bs @ \<lparr>Instrs = pre @ MI # post, LiveIns = L\<rparr> # rest)"
    unfolding scanBlocks_iff by (intro bexI [of _ "\<lparr>Instrs = pre @ MI # post, LiveIns = L\<rparr>"] bexI [of _ MI]) auto
qed

theorem frame_analyzer_flags_witness:
  "AVRFrameAnalyzer analyzerMF = (False, analyzerMF\<lparr>Info := emptyInfo\<lparr>HasStackArgs := True\<rparr>\<rparr>)"
  using frame_analyzer_flags [of analyzerMF
      "mkInstr LDDRdPtrQ [defReg (PhysReg 24), MO_FrameIndex (- 1), MO_Immediate 0]" "- 1"]
  by (simp add: analyzerMF_def mkFunction_def mkInstr_def emptyFrameInfo_def emptyInfo_def
        isFixedObjectIndex_def getNumFixedObjects_def defReg_def)

subsection \<open>Call-frame pseudo instructions\<close>

text \<open>
  C7. When the call frame is not reserved and the setup marker carries a non-zero
  amount, eliminating the marker replaces every stack-relative store placeholder
  between the marker and the first call (or the end of the block) by pushes, a
  two-byte placeholder by two single-byte pushes with the high byte first, and
  deletes the marker; what stands before the marker and everything from the first
  call on is left as it was.
\<close>

theorem setup_marker_stores_become_pushes:
  assumes policy: "\<not> hasReservedCallFrame MF"
    and align: "StackAlignment TFI = 1"
    and block: "Instrs (Blocks MF ! b) = pre @ marker # mid @ rest"
    and pos: "MI = length pre"
    and mark: "Opcode marker = CallFrameSetupOpcode TII"
    and pseudo: "Opcode marker \<noteq> STDSPQRr \<and> Opcode marker \<noteq> STDWSPQRr \<and>
                 \<not> isCall (get TII (Opcode marker))"
    and amount: "getImmOperand marker 0 = Inr Amount \<and> (ucast Amount :: 32 word) \<noteq> 0"
    and nocall: "\<forall>I \<in> set mid. \<not> isCall (get TII (Opcode I))"
    and stores: "\<forall>I \<in> set mid. Opcode I = STDSPQRr \<or> Opcode I = STDWSPQRr \<longrightarrow> wellFormedStore I"
    and call: "rest = [] \<or> isCall (get TII (Opcode (hd rest)))"
  shows "eliminateCallFramePseudoInstr TFI TII TRI MF b MI =
           Inr (setInstrs MF b (pre @ concat (map (spec_storeAsPushes TII TRI) mid) @ rest))"
proof -
  have at: "Instrs (Blocks MF ! b) ! MI = marker"
    by (simp add: block pos)
  have loop: "fixStackStoresLoop TII TRI True (marker # mid @ rest) =
                Inr (marker # concat (map (spec_storeAsPushes TII TRI) mid) @ rest)"
    using pseudo fixStackStoresLoop_pushes [OF nocall stores call, of TRI] by simp
  have fixed: "fixStackStores TII TRI (Instrs (Blocks MF ! b)) MI True =
               Inr (pre @ marker # concat (map (spec_storeAsPushes TII TRI) mid) @ rest)"
    by (simp add: fixStackStores_def block pos loop del: fixStackStoresLoop.simps)
  have er: "erase (pre @ marker # concat (map (spec_storeAsPushes TII TRI) mid) @ rest) MI =
              pre @ concat (map (spec_storeAsPushes TII TRI) mid) @ rest"
    by (simp add: erase_def pos)
  show ?thesis
    using policy align amount mark pseudo
    by (simp add: eliminateCallFramePseudoInstr_def Let_def at fixed er
          del: fixStackStoresLoop.simps)
qed

theorem setup_marker_stores_become_pushes_witness:
  "eliminateCallFramePseudoInstr AVRFrameLowering sampleTII sampleTRI
       (mkFunction (OtherCC 0) [callSiteBlock]) 0 0 =
     Inr (setInstrs (mkFunction (OtherCC 0) [callSiteBlock]) 0
       [BuildMI sampleTII PUSHRr [useReg R1 True] False,
        BuildMI sampleTII PUSHRr [useReg R0 True] False,
        BuildMI sampleTII PUSHRr [useReg (PhysReg 5) False] False,
        mkInstr CALL [],
        mkInstr STDSPQRr [useReg SP False, MO_Immediate 0, useReg (PhysReg 6) False]])"
proof -
  let ?MF = "mkFunction (OtherCC 0) [callSiteBlock]"
  let ?marker = "mkInstr ADJCALLSTACKDOWN [MO_Immediate 3]"
  let ?mid = "[mkInstr STDWSPQRr [useReg SP False, MO_Immediate 1, useReg R1R0 True],
               mkInstr STDSPQRr [useReg SP False, MO_Immediate 0, useReg (PhysReg 5) False]]"
  let ?rest = "[mkInstr CALL [],
                mkInstr STDSPQRr [useReg SP False, MO_Immediate 0, useReg (PhysReg 6) False]]"
  have policy: "\<not> hasReservedCallFrame ?MF"
    by (simp add: hasReservedCallFrame_def hasFP_def mkFunction_def emptyInfo_def)
  have align: "StackAlignment AVRFrameLowering = 1"
    by (simp add: AVRFrameLowering_def)
  have block: "Instrs (Blocks ?MF ! 0) = [] @ ?marker # ?mid @ ?rest"
    by (simp add: mkFunction_def callSiteBlock_def)
  have pos: "(0::nat) = length ([] :: machine_instr list)"
    by simp
  have mark: "Opcode ?marker = CallFrameSetupOpcode sampleTII"
    by (simp add: mkInstr_def ADJCALLSTACKDOWN_def sampleTII_def)
  have pseudo: "Opcode ?marker \<noteq> STDSPQRr \<and> Opcode ?marker \<noteq> STDWSPQRr \<and>
                 \<not> isCall (get sampleTII (Opcode ?marker))"
    by (simp add: mkInstr_def ADJCALLSTACKDOWN_def sampleTII_def)
  have amount: "getImmOperand ?marker 0 = Inr 3 \<and> (ucast (3 :: 64 word) :: 32 word) \<noteq> 0"
    by (simp add: getImmOperand_def mkInstr_def)
  have nocall: "\<forall>I \<in> set ?mid. \<not> isCall (get sampleTII (Opcode I))"
    by (simp add: mkInstr_def sampleTII_def)
  have stores: "\<forall>I \<in> set ?mid. Opcode I = STDSPQRr \<or> Opcode I = STDWSPQRr \<longrightarrow> wellFormedStore I"
    by (simp add: mkInstr_def wellFormedStore_def useReg_def)
  have call: "?rest = [] \<or> isCall (get sampleTII (Opcode (hd ?rest)))"
    by (simp add: mkInstr_def CALL_def sampleTII_def)
  from setup_marker_stores_become_pushes
         [OF policy align block pos mark pseudo amount nocall stores call, of sampleTRI]
  show ?thesis
    by (simp add: spec_storeAsPushes_def mkInstr_def useReg_def sampleTRI_def)
qed

subsection \<open>The dynamic-allocation stack pointer pass\<close>

text \<open>
  C9. The pass leaves a function without variable-sized stack objects unchanged
  and returns false. For a function with such objects it creates one fresh
  virtual register, puts one copy of the stack pointer into it at the start of the
  entry block, and in every block whose last instruction is a return puts a copy
  of that register (killed) into the stack pointer right before the return; all
  other instructions stay, and it returns true. The instruction table is assumed
  not to mark \<open>COPY\<close> or the debug-value opcode as a return.
\<close>

theorem dyn_alloca_guard:
  "(\<not> HasVarSizedObjects (FrameInfo MF) \<longrightarrow> AVRDynAllocaSR TII MF = Inr (False, MF)) \<and>
   (HasVarSizedObjects (FrameInfo MF) \<and> Blocks MF = E # rest \<and>
    \<not> isReturn (get TII COPY) \<and> \<not> isReturn (get TII DBG_VALUE) \<longrightarrow>
      AVRDynAllocaSR TII MF =
        Inr (True,
          MF\<lparr>Blocks :=
                spec_guardedBlock TII (VirtReg (NumVirtRegs MF)) True E #
                map (spec_guardedBlock TII (VirtReg (NumVirtRegs MF)) False) rest,
             NumVirtRegs := Suc (NumVirtRegs MF)\<rparr>))"
proof (intro conjI impI)
  assume "\<not> HasVarSizedObjects (FrameInfo MF)"
  then show "AVRDynAllocaSR TII MF = Inr (False, MF)"
    by (simp add: AVRDynAllocaSR_def)
next
  assume a: "HasVarSizedObjects (FrameInfo MF) \<and> Blocks MF = E # rest \<and>
    \<not> isReturn (get TII COPY) \<and> \<not> isReturn (get TII DBG_VALUE)"
  then have copy: "\<not> isReturn (get TII COPY)" and dbg: "\<not> isReturn (get TII DBG_VALUE)"
    by simp_all
  from a show "AVRDynAllocaSR TII MF =
        Inr (True,
          MF\<lparr>Blocks :=
                spec_guardedBlock TII (VirtReg (NumVirtRegs MF)) True E #
                map (spec_guardedBlock TII (VirtReg (NumVirtRegs MF)) False) rest,
             NumVirtRegs := Suc (NumVirtRegs MF)\<rparr>)"
    by (simp add: AVRDynAllocaSR_def Let_def restoreSP_spec [OF dbg] restoreSPLoop_spec [OF dbg]
          guarded_entry [OF copy] del: restoreSPLoop.simps(2))
qed

theorem dyn_alloca_guard_witness:
  "AVRDynAllocaSR sampleTII guardMF =
     Inr (True,
       guardMF
         \<lparr>Blocks :=
            [\<lparr>Instrs = [BuildMI sampleTII COPY [defReg (VirtReg 0), useReg SP False] False,
                        mkInstr STDPtrQRr []], LiveIns = []\<rparr>,
             \<lparr>Instrs = [BuildMI sampleTII COPY [defReg SP, useReg (VirtReg 0) True] False,
                        mkInstr RET []], LiveIns = []\<rparr>,
             \<lparr>Instrs = [mkInstr RET [], mkInstr DBG_VALUE []], LiveIns = []\<rparr>],
          NumVirtRegs := 1\<rparr>)"
  using dyn_alloca_guard [of guardMF sampleTII "\<lparr>Instrs = [mkInstr STDPtrQRr []], LiveIns = []\<rparr>"
      "[\<lparr>Instrs = [mkInstr RET []], LiveIns = []\<rparr>,
        \<lparr>Instrs = [mkInstr RET [], mkInstr DBG_VALUE []], LiveIns = []\<rparr>]"]
  by (simp add: guardMF_def mkFunction_def emptyFrameInfo_def spec_guardedBlock_def
        sampleTII_def mkInstr_def RET_def)

end
